theory Spec2Isabelle
  imports Complex_Main "HOL-Library.Char_ord" "HOL-Library.List_Lexorder"
    "HOL-Library.Product_Lexorder"
begin

section \<open>Data model of \<open>src/app.py\<close>\<close>

text \<open>
  The scheduling engine is the Python function \<open>generar_horario_optimo\<close>. It builds a
  CP-SAT model, hands it to the solver of OR-tools, and expands the solver's answer into
  timetable rows. Python integers are unbounded, hence \<open>int\<close>; \<open>//\<close> and \<open>%\<close> are floor
  division and its remainder, which is what \<open>div\<close> and \<open>mod\<close> are on \<open>int\<close>.
\<close>

text \<open>A Python \<open>dict\<close> with text keys and text values (a group, an instructor, a session).\<close>

type_synonym dict = "string \<rightharpoonup> string"

text \<open>\<open>d.get(k, default)\<close>.\<close>

definition get :: "dict \<Rightarrow> string \<Rightarrow> string \<Rightarrow> string" where
  "get m k dflt = (case m k of None \<Rightarrow> dflt | Some v \<Rightarrow> v)"

text \<open>The exceptions the function can leave through.\<close>

datatype error = KeyError | TypeError | IndexError | ZeroDivisionError | OverflowError

text \<open>\<open>range(n)\<close> and \<open>range(a, b)\<close>: empty when the bound is not above the start.\<close>

definition rango :: "int \<Rightarrow> int list" where
  "rango n = [0..n - 1]"

definition rango2 :: "int \<Rightarrow> int \<Rightarrow> int list" where
  "rango2 a b = [a..b - 1]"

text \<open>
  The parameters of \<open>generar_horario_optimo\<close>. \<open>dias_no_laborables\<close> is any container of
  day indices, held here in its iteration order; \<open>len\<close> is \<open>length\<close>. A date is its
  proleptic Gregorian ordinal (\<open>date.toordinal()\<close>), from 1 for \<open>date.min\<close> to 3652059 for
  \<open>date.max\<close>; \<open>fecha_inicio\<close> is \<open>None\<close> when the caller leaves it out.
\<close>

record config =
  num_instructores :: int
  instructores :: "dict list"
  num_grupos :: int
  grupos :: "dict list"
  dias_no_laborables :: "int list"
  ambientes :: "string list"
  curriculo_sessions :: "dict list"
  curriculo_por_trimestre :: "string \<rightharpoonup> dict list"
  horas_por_asignacion :: int
  num_dias :: int
  max_horas_semana :: int
  max_dias_semana :: int
  fecha_inicio :: "int option"
  forzar_equidad :: bool

section \<open>The constraint model\<close>

text \<open>
  The variables the function creates: \<open>asignacion[(i, d, g)]\<close>, \<open>trabajo_i_d\<close>,
  \<open>carga_i\<close>, \<open>max_carga\<close> and \<open>min_carga\<close>.
\<close>

datatype var = Asig int int int | Trabajo int int | Carga int | MaxCarga | MinCarga

datatype declaracion = NewBoolVar var | NewIntVar int int var

text \<open>A literal handed to \<open>OnlyEnforceIf\<close>: a Boolean variable or its \<open>Not()\<close>.\<close>

datatype literal = Lit var | Not_lit var

text \<open>
  The linear expressions that occur: a Python \<open>sum\<close> of variables (the integer 0 when
  there are none), an integer, a single variable.
\<close>

datatype expr = Suma "var list" | Num int | Var var

datatype comparador = Le | Ge | Eq

datatype restriccion =
    Add expr comparador expr
  | AddExactlyOne "var list"
  | AddAtMostOne "var list"
  | OnlyEnforceIf restriccion literal
  | AddMaxEquality var "var list"
  | AddMinEquality var "var list"

record modelo =
  variables :: "declaracion list"
  restricciones :: "restriccion list"
  minimizar :: "var \<times> var"

text \<open>What it means for an assignment of integers to the variables to satisfy the model.\<close>

type_synonym valuacion = "var \<Rightarrow> int"

fun valor_expr :: "valuacion \<Rightarrow> expr \<Rightarrow> int" where
  "valor_expr v (Suma xs) = sum_list (map v xs)"
| "valor_expr v (Num k) = k"
| "valor_expr v (Var x) = v x"

fun compara :: "comparador \<Rightarrow> int \<Rightarrow> int \<Rightarrow> bool" where
  "compara Le a b = (a \<le> b)"
| "compara Ge a b = (a \<ge> b)"
| "compara Eq a b = (a = b)"

fun vale :: "valuacion \<Rightarrow> literal \<Rightarrow> bool" where
  "vale v (Lit x) = (v x = 1)"
| "vale v (Not_lit x) = (v x = 0)"

text \<open>
  \<open>model.Add\<close> of a comparison between Python integers (an empty \<open>sum\<close> is the integer
  0) is the constraint that is always true or always false, which is what evaluating the
  comparison gives. The maximum or minimum of no expressions is no integer: such a
  constraint has no solution.
\<close>

fun cumple :: "valuacion \<Rightarrow> restriccion \<Rightarrow> bool" where
  "cumple v (Add a c b) = compara c (valor_expr v a) (valor_expr v b)"
| "cumple v (AddExactlyOne xs) = (sum_list (map v xs) = 1)"
| "cumple v (AddAtMostOne xs) = (sum_list (map v xs) \<le> 1)"
| "cumple v (OnlyEnforceIf r l) = (if vale v l then cumple v r else True)"
| "cumple v (AddMaxEquality t xs) = (xs \<noteq> [] \<and> v t = Max (set (map v xs)))"
| "cumple v (AddMinEquality t xs) = (xs \<noteq> [] \<and> v t = Min (set (map v xs)))"

fun en_dominio :: "valuacion \<Rightarrow> declaracion \<Rightarrow> bool" where
  "en_dominio v (NewBoolVar x) = (v x = 0 \<or> v x = 1)"
| "en_dominio v (NewIntVar lo hi x) = (lo \<le> v x \<and> v x \<le> hi)"

definition satisface :: "valuacion \<Rightarrow> modelo \<Rightarrow> bool" where
  "satisface v m =
     (list_all (en_dominio v) (variables m) \<and> list_all (cumple v) (restricciones m))"

definition objetivo :: "valuacion \<Rightarrow> modelo \<Rightarrow> int" where
  "objetivo v m = v (fst (minimizar m)) - v (snd (minimizar m))"

section \<open>Building the model\<close>

definition dias_laborables :: "config \<Rightarrow> int" where
  "dias_laborables c = num_dias c - int (length (dias_no_laborables c))"

text \<open>\<open>horas_por_asignacion = max(1, horas_por_asignacion)\<close>\<close>

definition horas_efectivas :: "config \<Rightarrow> int" where
  "horas_efectivas c = max 1 (horas_por_asignacion c)"

definition max_asignaciones_semana :: "config \<Rightarrow> int" where
  "max_asignaciones_semana c = max 1 (max_horas_semana c div horas_efectivas c)"

definition num_semanas :: "config \<Rightarrow> int" where
  "num_semanas c = (num_dias c + 6) div 7"

definition total_asignaciones :: "config \<Rightarrow> int" where
  "total_asignaciones c = num_grupos c * dias_laborables c"

definition min_asign_por_inst :: "config \<Rightarrow> int" where
  "min_asign_por_inst c =
     (if num_instructores c > 0 then total_asignaciones c div num_instructores c else 0)"

definition max_asign_por_inst :: "config \<Rightarrow> int" where
  "max_asign_por_inst c =
     min_asign_por_inst c +
       (if num_instructores c > 0 \<and> total_asignaciones c mod num_instructores c \<noteq> 0
        then 1 else 0)"

definition margen :: "config \<Rightarrow> int" where
  "margen c =
     (if min_asign_por_inst c > 0 then max 1 (min_asign_por_inst c div 10) else 1)"

text \<open>The keys of the dictionary \<open>asignacion\<close>; reading any other key raises.\<close>

definition clave_asignacion :: "config \<Rightarrow> int \<Rightarrow> int \<Rightarrow> int \<Rightarrow> bool" where
  "clave_asignacion c i d g =
     (i \<in> set (rango (num_instructores c)) \<and> d \<in> set (rango (num_dias c)) \<and>
      g \<in> set (rango (num_grupos c)))"

definition dia_laborable :: "config \<Rightarrow> int \<Rightarrow> bool" where
  "dia_laborable c d = (d \<in> set (rango (num_dias c)) \<and> d \<notin> set (dias_no_laborables c))"

definition vars_asignacion :: "config \<Rightarrow> declaracion list" where
  "vars_asignacion c =
     [NewBoolVar (Asig i d g).
        i \<leftarrow> rango (num_instructores c), d \<leftarrow> rango (num_dias c), g \<leftarrow> rango (num_grupos c)]"

text \<open>1. Non-working days: nobody works. The loop runs over the container itself.\<close>

definition restr_no_laborables :: "config \<Rightarrow> error + restriccion list" where
  "restr_no_laborables c =
     (if \<exists>d \<in> set (dias_no_laborables c). \<exists>g \<in> set (rango (num_grupos c)).
           \<exists>i \<in> set (rango (num_instructores c)). \<not> clave_asignacion c i d g
      then Inl KeyError
      else Inr [Add (Var (Asig i d g)) Eq (Num 0).
                  d \<leftarrow> dias_no_laborables c, g \<leftarrow> rango (num_grupos c),
                  i \<leftarrow> rango (num_instructores c)])"

text \<open>2. Every group has exactly one instructor on every working day.\<close>

definition restr_cobertura :: "config \<Rightarrow> restriccion list" where
  "restr_cobertura c =
     [AddExactlyOne [Asig i d g. i \<leftarrow> rango (num_instructores c)].
        d \<leftarrow> rango (num_dias c), d \<notin> set (dias_no_laborables c), g \<leftarrow> rango (num_grupos c)]"

text \<open>3. An instructor teaches at most one group a day.\<close>

definition restr_exclusividad :: "config \<Rightarrow> restriccion list" where
  "restr_exclusividad c =
     [AddAtMostOne [Asig i d g. g \<leftarrow> rango (num_grupos c)].
        i \<leftarrow> rango (num_instructores c), d \<leftarrow> rango (num_dias c)]"

text \<open>4. Weekly limits, for instructor \<open>i\<close> and week \<open>w\<close>.\<close>

definition dias_semana :: "config \<Rightarrow> int \<Rightarrow> int list" where
  "dias_semana c w = rango2 (w * 7) (min (w * 7 + 7) (num_dias c))"

definition laborables_semana :: "config \<Rightarrow> int \<Rightarrow> int list" where
  "laborables_semana c w = [d \<leftarrow> dias_semana c w. d \<notin> set (dias_no_laborables c)]"

definition asignaciones_semana :: "config \<Rightarrow> int \<Rightarrow> int \<Rightarrow> var list" where
  "asignaciones_semana c i w =
     [Asig i d g. d \<leftarrow> dias_semana c w, g \<leftarrow> rango (num_grupos c)]"

definition asignaciones_dia :: "config \<Rightarrow> int \<Rightarrow> int \<Rightarrow> var list" where
  "asignaciones_dia c i d = [Asig i d g. g \<leftarrow> rango (num_grupos c)]"

definition restr_trabajo_dia :: "config \<Rightarrow> int \<Rightarrow> int \<Rightarrow> restriccion list" where
  "restr_trabajo_dia c i d =
     [OnlyEnforceIf (Add (Suma (asignaciones_dia c i d)) Ge (Num 1)) (Lit (Trabajo i d)),
      OnlyEnforceIf (Add (Suma (asignaciones_dia c i d)) Eq (Num 0)) (Not_lit (Trabajo i d))]"

definition restr_semana :: "config \<Rightarrow> int \<Rightarrow> int \<Rightarrow> restriccion list" where
  "restr_semana c i w =
     Add (Suma (asignaciones_semana c i w)) Le (Num (max_asignaciones_semana c)) #
     concat (map (restr_trabajo_dia c i) (laborables_semana c w)) @
     (if laborables_semana c w \<noteq> []
      then [Add (Suma (map (Trabajo i) (laborables_semana c w))) Le (Num (max_dias_semana c))]
      else [])"

definition restr_semanales :: "config \<Rightarrow> restriccion list" where
  "restr_semanales c =
     concat [restr_semana c i w. i \<leftarrow> rango (num_instructores c), w \<leftarrow> rango (num_semanas c)]"

definition vars_trabajo :: "config \<Rightarrow> declaracion list" where
  "vars_trabajo c =
     [NewBoolVar (Trabajo i d).
        i \<leftarrow> rango (num_instructores c), w \<leftarrow> rango (num_semanas c),
        d \<leftarrow> laborables_semana c w]"

text \<open>5. Equity of the load.\<close>

definition total_instructor :: "config \<Rightarrow> int \<Rightarrow> var list" where
  "total_instructor c i =
     [Asig i d g. d \<leftarrow> rango (num_dias c), g \<leftarrow> rango (num_grupos c)]"

definition restr_equidad :: "config \<Rightarrow> restriccion list" where
  "restr_equidad c =
     concat
       [if forzar_equidad c \<and> num_instructores c > 0
        then [Add (Suma (total_instructor c i)) Ge
                (Num (max 0 (min_asign_por_inst c - margen c))),
              Add (Suma (total_instructor c i)) Le
                (Num (max_asign_por_inst c + margen c))]
        else [].
        i \<leftarrow> rango (num_instructores c)]"

text \<open>The objective: minimise the imbalance of the loads.\<close>

definition cargas :: "config \<Rightarrow> var list" where
  "cargas c = map Carga (rango (num_instructores c))"

definition vars_carga :: "config \<Rightarrow> declaracion list" where
  "vars_carga c =
     map (NewIntVar 0 (total_asignaciones c)) (cargas c) @
     [NewIntVar 0 (total_asignaciones c) MaxCarga, NewIntVar 0 (total_asignaciones c) MinCarga]"

definition restr_objetivo :: "config \<Rightarrow> restriccion list" where
  "restr_objetivo c =
     [Add (Var (Carga i)) Eq (Suma (total_instructor c i)). i \<leftarrow> rango (num_instructores c)] @
     [AddMaxEquality MaxCarga (cargas c), AddMinEquality MinCarga (cargas c)]"

text \<open>
  The constraint library takes 64-bit integers. Where a linear expression (a sum of at
  least one variable) is compared with a Python integer outside that range, and where
  such an integer is the bound of a new variable, the call raises \<open>TypeError\<close>. A
  comparison of two Python integers (the sum of no variables is the integer 0) raises
  nothing. The places: lines 367 and 378 in the weekly loop, lines 393 and 394 under the
  equity switch, and the bounds of \<open>carga_i\<close>, \<open>max_carga\<close> and \<open>min_carga\<close>, of which
  the last two are always created.
\<close>

definition en_int64 :: "int \<Rightarrow> bool" where
  "en_int64 k = (- 9223372036854775808 \<le> k \<and> k \<le> 9223372036854775807)"

definition rechaza_entero :: "config \<Rightarrow> bool" where
  "rechaza_entero c =
     ((\<exists>i \<in> set (rango (num_instructores c)). \<exists>w \<in> set (rango (num_semanas c)).
         (asignaciones_semana c i w \<noteq> [] \<and> \<not> en_int64 (max_asignaciones_semana c)) \<or>
         (laborables_semana c w \<noteq> [] \<and> \<not> en_int64 (max_dias_semana c))) \<or>
      (forzar_equidad c \<and> num_instructores c > 0 \<and>
       (\<exists>i \<in> set (rango (num_instructores c)).
          total_instructor c i \<noteq> [] \<and>
          (\<not> en_int64 (max 0 (min_asign_por_inst c - margen c)) \<or>
           \<not> en_int64 (max_asign_por_inst c + margen c)))) \<or>
      \<not> en_int64 (total_asignaciones c))"

text \<open>
  The model, or the exception that ends its construction: the \<open>KeyError\<close> of the first
  block comes before any of the others.
\<close>

definition construir_modelo :: "config \<Rightarrow> error + modelo" where
  "construir_modelo c =
     (case restr_no_laborables c of
        Inl e \<Rightarrow> Inl e
      | Inr r1 \<Rightarrow>
          if rechaza_entero c then Inl TypeError
          else
            Inr \<lparr>variables = vars_asignacion c @ vars_trabajo c @ vars_carga c,
                 restricciones =
                   r1 @ restr_cobertura c @ restr_exclusividad c @ restr_semanales c @
                   restr_equidad c @ restr_objetivo c,
                 minimizar = (MaxCarga, MinCarga)\<rparr>)"

section \<open>The solver\<close>

text \<open>
  \<open>CpSolver.Solve\<close> belongs to OR-tools, not to this program: it is a parameter of the
  development. It answers with a status of the enumeration \<open>CpSolverStatus\<close>, the values
  of the variables (read through \<open>solver.Value\<close>) and its counters.
\<close>

datatype cp_status = UNKNOWN | MODEL_INVALID | FEASIBLE | INFEASIBLE | OPTIMAL

record respuesta =
  status :: cp_status
  valor :: valuacion
  wall_time :: real
  num_conflicts :: int
  num_branches :: int

type_synonym solver = "modelo \<Rightarrow> respuesta"

definition status_names :: "(cp_status \<times> string) list" where
  "status_names =
     [(OPTIMAL, ''OPTIMAL''), (FEASIBLE, ''FEASIBLE''), (INFEASIBLE, ''INFEASIBLE''),
      (MODEL_INVALID, ''MODEL_INVALID''), (UNKNOWN, ''UNKNOWN'')]"

text \<open>\<open>status_names.get(status, "UNKNOWN")\<close>\<close>

definition status_name :: "cp_status \<Rightarrow> string" where
  "status_name s = (case map_of status_names s of None \<Rightarrow> ''UNKNOWN'' | Some n \<Rightarrow> n)"

text \<open>
  What is asked of a solver: a status \<open>OPTIMAL\<close> or \<open>FEASIBLE\<close> comes with values that
  satisfy the model it was given. The second predicate is the stronger service of a
  solver that settles the model: it reports \<open>OPTIMAL\<close> whenever the model has a solution.
\<close>

definition solver_correcto :: "solver \<Rightarrow> modelo \<Rightarrow> bool" where
  "solver_correcto s m =
     (if status (s m) = OPTIMAL \<or> status (s m) = FEASIBLE then satisface (valor (s m)) m
      else True)"

definition solver_decide :: "solver \<Rightarrow> modelo \<Rightarrow> bool" where
  "solver_decide s m = (if \<exists>v. satisface v m then status (s m) = OPTIMAL else True)"

section \<open>Materialisation of the rows\<close>

record fila =
  Fecha :: string
  Dia :: string
  Jornada :: string
  Ficha :: string
  Programa :: string
  Trimestre :: string
  Hora_Inicio :: string
  Hora_Fin :: string
  Municipio :: string
  Asignatura :: string
  Competencia :: string
  Resultados_de_Aprendizaje :: string
  Instructor :: string
  Jornada_del_Instructor :: string
  Ambiente :: string
  Estado :: string
  Notas :: string
  Festivo :: string
  Exclusiones_del_Instructor :: string

text \<open>
  Text outside ASCII is written in its UTF-8 bytes. \<open>date.weekday()\<close> of an ordinal \<open>n\<close>
  is \<open>(n + 6) mod 7\<close>, Monday being 0.
\<close>

definition dias_esp :: "(int \<times> string) list" where
  "dias_esp =
     [(0, ''Lunes''), (1, ''Martes''), (2, ''Mi'' @ [CHR 0xC3, CHR 0xA9] @ ''rcoles''),
      (3, ''Jueves''), (4, ''Viernes''), (5, ''S'' @ [CHR 0xC3, CHR 0xA1] @ ''bado''),
      (6, ''Domingo'')]"

definition weekday :: "int \<Rightarrow> int" where
  "weekday fecha = (fecha + 6) mod 7"

definition get_dia_semana :: "int \<Rightarrow> string" where
  "get_dia_semana fecha = the (map_of dias_esp (weekday fecha))"

definition Manana :: string where
  "Manana = ''Ma'' @ [CHR 0xC3, CHR 0xB1] @ ''ana''"

definition jornada_options :: "string list" where
  "jornada_options = [Manana, ''Tarde'', ''Noche'']"

definition sesion_de_relleno :: dict where
  "sesion_de_relleno =
     [''asignatura'' \<mapsto> ''Sin asignatura'', ''competencia'' \<mapsto> ''N/A'',
      ''resultados'' \<mapsto> ''N/A'', ''hora_inicio'' \<mapsto> ''08:00'', ''hora_fin'' \<mapsto> ''12:00'']"

text \<open>\<open>str(grupo_info.get('Trimestre', "1"))\<close>\<close>

definition grupo_trimestre_key :: "config \<Rightarrow> int \<Rightarrow> string" where
  "grupo_trimestre_key c g = get (grupos c ! nat g) ''Trimestre'' ''1''"

text \<open>
  The sessions a row of group \<open>g\<close> rotates through: \<open>dict.get\<close> with the whole list as
  default, then \<open>or\<close> (an empty list is false), then the placeholder.
\<close>

definition sesiones_trimestre :: "config \<Rightarrow> int \<Rightarrow> dict list" where
  "sesiones_trimestre c g =
     (let s0 = (case curriculo_por_trimestre c (grupo_trimestre_key c g) of
                  None \<Rightarrow> curriculo_sessions c | Some b \<Rightarrow> b);
          s1 = (if s0 \<noteq> [] then s0 else curriculo_sessions c)
      in if s1 = [] then [sesion_de_relleno] else s1)"

definition curr_idx :: "config \<Rightarrow> int \<Rightarrow> int \<Rightarrow> int" where
  "curr_idx c d g = (d * num_grupos c + g) mod int (length (sesiones_trimestre c g))"

definition curr_info :: "config \<Rightarrow> int \<Rightarrow> int \<Rightarrow> dict" where
  "curr_info c d g = sesiones_trimestre c g ! nat (curr_idx c d g)"

definition amb_idx :: "config \<Rightarrow> int \<Rightarrow> int \<Rightarrow> int" where
  "amb_idx c d g = (d * num_grupos c + g) mod int (length (ambientes c))"

definition jornada_dia :: "int \<Rightarrow> int \<Rightarrow> string" where
  "jornada_dia d g = jornada_options ! nat ((d + g) mod int (length jornada_options))"

definition hora_inicio_str :: "string \<Rightarrow> string" where
  "hora_inicio_str j =
     (if j = Manana then ''08:00'' else if j = ''Tarde'' then ''14:00'' else ''18:00'')"

definition hora_fin_str :: "string \<Rightarrow> string" where
  "hora_fin_str j =
     (if j = Manana then ''13:00'' else if j = ''Tarde'' then ''18:00'' else ''22:00'')"

text \<open>
  \<open>fecha_inicio + datetime.timedelta(days=d)\<close>: a \<open>timedelta\<close> holds at most 999999999
  days, and the sum must be a date; otherwise \<open>OverflowError\<close>.
\<close>

definition fecha_real :: "int \<Rightarrow> int \<Rightarrow> error + int" where
  "fecha_real fi d =
     (if d \<le> 999999999 \<and> 1 \<le> fi + d \<and> fi + d \<le> 3652059 then Inr (fi + d)
      else Inl OverflowError)"

text \<open>
  The row appended for the triple \<open>(d, g, i)\<close>, once the date and every index it reads
  exist. \<open>fmt\<close> is \<open>strftime("%Y-%m-%d")\<close> on the date of an ordinal: it belongs to the
  platform (the C library pads a year below 1000 on some systems and not on others), so
  it is a parameter.
\<close>

definition fila_de :: "config \<Rightarrow> (int \<Rightarrow> string) \<Rightarrow> int \<Rightarrow> int \<Rightarrow> int \<Rightarrow> int \<Rightarrow> fila" where
  "fila_de c fmt fi d g i =
     (let grupo_info = grupos c ! nat g;
          instructor_info = instructores c ! nat i;
          sesion = curr_info c d g
      in \<lparr>Fecha = fmt (fi + d),
          Dia = get_dia_semana (fi + d),
          Jornada = jornada_dia d g,
          Ficha = get grupo_info ''Ficha'' ''N/A'',
          Programa = get grupo_info ''Programa'' ''N/A'',
          Trimestre = get grupo_info ''Trimestre'' ''N/A'',
          Hora_Inicio = hora_inicio_str (jornada_dia d g),
          Hora_Fin = hora_fin_str (jornada_dia d g),
          Municipio = get grupo_info ''Municipio'' ''N/A'',
          Asignatura = get sesion ''asignatura'' ''N/A'',
          Competencia = get sesion ''competencia'' ''N/A'',
          Resultados_de_Aprendizaje = get sesion ''resultados'' ''N/A'',
          Instructor = get instructor_info ''Nombre'' ''N/A'',
          Jornada_del_Instructor = get instructor_info ''Jornada del Instructor'' ''N/A'',
          Ambiente = ambientes c ! nat (amb_idx c d g),
          Estado = ''Programado'',
          Notas = [],
          Festivo = (if d \<in> set (dias_no_laborables c) then ''S'' @ [CHR 0xC3, CHR 0xAD]
                     else ''No''),
          Exclusiones_del_Instructor =
            get instructor_info ''Exclusiones del Instructor'' ''N/A''\<rparr>)"

text \<open>
  The body of the innermost loop: nothing unless the variable is 1; then
  \<open>instructores[i]\<close> can raise, and so can \<open>% num_ambientes\<close>.
\<close>

definition una_fila ::
  "config \<Rightarrow> (int \<Rightarrow> string) \<Rightarrow> int \<Rightarrow> valuacion \<Rightarrow> int \<Rightarrow> int \<Rightarrow> int \<Rightarrow> error + fila list" where
  "una_fila c fmt fi v d g i =
     (if v (Asig i d g) = 1
      then (if \<not> i < int (length (instructores c)) then Inl IndexError
            else if length (ambientes c) = 0 then Inl ZeroDivisionError
            else Inr [fila_de c fmt fi d g i])
      else Inr [])"

text \<open>Running the iterations of a loop in order: the first exception ends it.\<close>

fun secuencia :: "(error + 'a list) list \<Rightarrow> error + 'a list" where
  "secuencia [] = Inr []"
| "secuencia (x # xs) =
     (case x of
        Inl e \<Rightarrow> Inl e
      | Inr a \<Rightarrow> (case secuencia xs of Inl e \<Rightarrow> Inl e | Inr b \<Rightarrow> Inr (a @ b)))"

text \<open>The loop over \<open>g\<close> reads \<open>grupos[g]\<close> before it looks at any instructor.\<close>

definition filas_grupo ::
  "config \<Rightarrow> (int \<Rightarrow> string) \<Rightarrow> int \<Rightarrow> valuacion \<Rightarrow> int \<Rightarrow> int \<Rightarrow> error + fila list" where
  "filas_grupo c fmt fi v d g =
     (if \<not> g < int (length (grupos c)) then Inl IndexError
      else secuencia (map (una_fila c fmt fi v d g) (rango (num_instructores c))))"

text \<open>The loop over \<open>d\<close> computes the date of the day before it looks at any group.\<close>

definition filas_dia ::
  "config \<Rightarrow> (int \<Rightarrow> string) \<Rightarrow> int \<Rightarrow> valuacion \<Rightarrow> int \<Rightarrow> error + fila list" where
  "filas_dia c fmt fi v d =
     (case fecha_real fi d of
        Inl e \<Rightarrow> Inl e
      | Inr f \<Rightarrow> secuencia (map (filas_grupo c fmt fi v d) (rango (num_grupos c))))"

definition resultados :: "config \<Rightarrow> (int \<Rightarrow> string) \<Rightarrow> int \<Rightarrow> valuacion \<Rightarrow> error + fila list" where
  "resultados c fmt fi v = secuencia (map (filas_dia c fmt fi v) (rango (num_dias c)))"

text \<open>The triples \<open>(d, g, i)\<close> for which the loop appends a row, in the order of the loop.\<close>

definition asignados :: "config \<Rightarrow> valuacion \<Rightarrow> (int \<times> int \<times> int) list" where
  "asignados c v =
     [(d, g, i).
        d \<leftarrow> rango (num_dias c), g \<leftarrow> rango (num_grupos c),
        i \<leftarrow> rango (num_instructores c), v (Asig i d g) = 1]"

text \<open>
  \<open>sort_values(['Fecha', 'Hora Inicio', 'Programa'])\<close>: a stable sort on the three
  columns, compared in that order. All three hold text, which compares position by
  position. The \<open>try\<close> around the call guards a comparison that raises; text compared
  with text does not, so the fallback sort on \<open>Fecha\<close> alone is not taken. An empty
  frame is not sorted.
\<close>

definition clave_orden :: "fila \<Rightarrow> string \<times> string \<times> string" where
  "clave_orden r = (Fecha r, Hora_Inicio r, Programa r)"

definition sort_values :: "fila list \<Rightarrow> fila list" where
  "sort_values rs = (if rs = [] then [] else sort_key clave_orden rs)"

text \<open>
  The block that runs under \<open>if status in (cp_model.OPTIMAL, cp_model.FEASIBLE)\<close>: the
  loop, then the sort.
\<close>

definition materializar ::
  "config \<Rightarrow> (int \<Rightarrow> string) \<Rightarrow> int \<Rightarrow> valuacion \<Rightarrow> error + fila list" where
  "materializar c fmt fi v =
     (case resultados c fmt fi v of Inl e \<Rightarrow> Inl e | Inr rs \<Rightarrow> Inr (sort_values rs))"

text \<open>
  The triples in the order of the rows of the returned frame: row \<open>k\<close> of the frame is
  the row of the \<open>k\<close>-th triple.
\<close>

definition emitidos ::
  "config \<Rightarrow> (int \<Rightarrow> string) \<Rightarrow> int \<Rightarrow> valuacion \<Rightarrow> (int \<times> int \<times> int) list" where
  "emitidos c fmt fi v =
     sort_key (\<lambda>(d, g, i). clave_orden (fila_de c fmt fi d g i)) (asignados c v)"

section \<open>\<open>generar_horario_optimo\<close>\<close>

datatype valor_stat = Texto string | Entero int | Decimal real

text \<open>
  What the call leaves behind: the rows, the status text, the diagnostics dictionary,
  and the models that were submitted to \<open>solver.Solve\<close> on the way.
\<close>

record resultado =
  filas :: "fila list"
  estado :: string
  stats :: "string \<rightharpoonup> valor_stat"
  resueltos :: "modelo list"

definition stats_solver :: "config \<Rightarrow> respuesta \<Rightarrow> string \<rightharpoonup> valor_stat" where
  "stats_solver c r =
     [''status'' \<mapsto> Texto (status_name (status r)),
      ''tiempo_solver'' \<mapsto> Decimal (wall_time r),
      ''conflictos'' \<mapsto> Entero (num_conflicts r),
      ''ramas'' \<mapsto> Entero (num_branches r),
      ''dias_laborables'' \<mapsto> Entero (dias_laborables c),
      ''total_asignaciones_esperadas'' \<mapsto> Entero (total_asignaciones c)]"

text \<open>\<open>hoy\<close> is \<open>datetime.date.today()\<close>, read only when no start date is given.\<close>

definition fecha_de_inicio :: "config \<Rightarrow> int \<Rightarrow> int" where
  "fecha_de_inicio c hoy = (case fecha_inicio c of None \<Rightarrow> hoy | Some f \<Rightarrow> f)"

definition generar_horario_optimo ::
  "config \<Rightarrow> solver \<Rightarrow> (int \<Rightarrow> string) \<Rightarrow> int \<Rightarrow> error + resultado" where
  "generar_horario_optimo c s fmt hoy =
     (if dias_laborables c \<le> 0
      then Inr \<lparr>filas = [], estado = ''NO_DIAS_LABORABLES'', stats = Map.empty,
                resueltos = []\<rparr>
      else
        (case construir_modelo c of
           Inl e \<Rightarrow> Inl e
         | Inr m \<Rightarrow>
             (let r = s m in
              if status r = OPTIMAL \<or> status r = FEASIBLE
              then
                (case materializar c fmt (fecha_de_inicio c hoy) (valor r) of
                   Inl e \<Rightarrow> Inl e
                 | Inr rs \<Rightarrow>
                     Inr \<lparr>filas = rs, estado = status_name (status r),
                          stats = stats_solver c r, resueltos = [m]\<rparr>)
              else
                Inr \<lparr>filas = [], estado = status_name (status r),
                     stats = stats_solver c r, resueltos = [m]\<rparr>)))"

section \<open>The loader's check and the call site\<close>

text \<open>
  \<open>cargar_archivos_basic\<close> reads four spreadsheets and parses them with pandas (lines 96
  to 245); any exception there is caught and the function returns \<open>None\<close>. The parameter
  of the model is what that part leaves in its local variables, or \<open>None\<close> after an
  exception; from line 250 on the function is as written. Of its messages only the calls
  of \<open>st.error\<close> are kept.
\<close>

record parseado =
  p_grupos :: "dict list"
  p_instructores :: "dict list"
  p_ambientes :: "string list"
  p_curriculo_sessions :: "dict list"
  p_horas_por_asignacion :: int

record datos_basic =
  db_num_instructores :: int
  db_instructores :: "dict list"
  db_num_grupos :: int
  db_grupos :: "dict list"
  db_ambientes :: "string list"
  db_curriculo_sessions :: "dict list"
  db_curriculo_por_trimestre :: "string \<rightharpoonup> dict list"
  db_horas_por_asignacion :: int

datatype aviso = Error_al_cargar_datos | Debe_haber_grupo_e_instructor

text \<open>\<open>curriculo_por_trimestre.setdefault(tri_key, []).append(sess)\<close>, session by session.\<close>

fun agrupar :: "dict list \<Rightarrow> (string \<rightharpoonup> dict list) \<Rightarrow> (string \<rightharpoonup> dict list)" where
  "agrupar [] m = m"
| "agrupar (sess # resto) m =
     (let tri_key = get sess ''trimestre'' ''1''
      in agrupar resto
           (m(tri_key \<mapsto> (case m tri_key of None \<Rightarrow> [] | Some l \<Rightarrow> l) @ [sess])))"

definition cargar_archivos_basic :: "parseado option \<Rightarrow> aviso list \<times> datos_basic option" where
  "cargar_archivos_basic leido =
     (case leido of
        None \<Rightarrow> ([Error_al_cargar_datos], None)
      | Some p \<Rightarrow>
          (let num_grupos = int (length (p_grupos p));
               num_instructores = int (length (p_instructores p))
           in if num_grupos = 0 \<or> num_instructores = 0
              then ([Debe_haber_grupo_e_instructor], None)
              else
                ([], Some \<lparr>db_num_instructores = num_instructores,
                           db_instructores = p_instructores p,
                           db_num_grupos = num_grupos,
                           db_grupos = p_grupos p,
                           db_ambientes = p_ambientes p,
                           db_curriculo_sessions = p_curriculo_sessions p,
                           db_curriculo_por_trimestre =
                             agrupar (p_curriculo_sessions p) Map.empty,
                           db_horas_por_asignacion = p_horas_por_asignacion p\<rparr>)))"

text \<open>
  The handler of the button (lines 682 to 740), the only place that calls
  \<open>generar_horario_optimo\<close>. The values of the sliders, the date input and the check box
  are \<open>ajustes\<close>; \<open>dnl\<close> is what \<open>calcular_dias_no_laborables\<close> returns for the holidays
  that the holiday service gave, in the order of iteration. \<open>st.stop()\<close> ends the script:
  nothing after it runs. Before the call the handler computes two dates, the one whose
  year is the last year of holidays (line 690) and \<open>fecha_fin\<close> (line 720), either of
  which can raise; the dates that \<open>calcular_dias_no_laborables\<close> computes lie between
  \<open>fecha_inicio\<close> and the first of them. A failure of the holiday service is caught.
  What the handler displays after the call is not modelled.
\<close>

record ajustes =
  a_fecha_inicio :: int
  a_num_dias :: int
  a_max_horas_semana :: int
  a_max_dias_semana :: int
  a_forzar_equidad :: bool

datatype salida =
    Falta_archivo
  | Detenido "aviso list"
  | Fallo error
  | Ejecutado "error + resultado"

definition argumentos :: "datos_basic \<Rightarrow> ajustes \<Rightarrow> int list \<Rightarrow> config" where
  "argumentos datos a dnl =
     \<lparr>num_instructores = db_num_instructores datos,
      instructores = db_instructores datos,
      num_grupos = db_num_grupos datos,
      grupos = db_grupos datos,
      dias_no_laborables = dnl,
      ambientes = db_ambientes datos,
      curriculo_sessions = db_curriculo_sessions datos,
      curriculo_por_trimestre = db_curriculo_por_trimestre datos,
      horas_por_asignacion = db_horas_por_asignacion datos,
      num_dias = a_num_dias a,
      max_horas_semana = a_max_horas_semana a,
      max_dias_semana = a_max_dias_semana a,
      fecha_inicio = Some (a_fecha_inicio a),
      forzar_equidad = a_forzar_equidad a\<rparr>"

definition boton_generar ::
  "bool \<Rightarrow> parseado option \<Rightarrow> ajustes \<Rightarrow> int list \<Rightarrow> solver \<Rightarrow> (int \<Rightarrow> string) \<Rightarrow> int \<Rightarrow> salida"
  where
  "boton_generar todos_subidos leido a dnl s fmt hoy =
     (if todos_subidos
      then
        (case cargar_archivos_basic leido of
           (avisos, None) \<Rightarrow> Detenido avisos
         | (avisos, Some datos) \<Rightarrow>
             (case fecha_real (a_fecha_inicio a) (a_num_dias a) of
                Inl e \<Rightarrow> Fallo e
              | Inr fin \<Rightarrow>
                  (case fecha_real (a_fecha_inicio a) (a_num_dias a - 1) of
                     Inl e \<Rightarrow> Fallo e
                   | Inr fecha_fin \<Rightarrow>
                       Ejecutado
                         (generar_horario_optimo (argumentos datos a dnl) s fmt hoy))))
      else Falta_archivo)"

section \<open>A worked configuration\<close>

text \<open>
  Two instructors, one group, two days of which the second is a holiday: the solver's
  answer assigns the second instructor to the group on the first day.
\<close>

definition sesion_ej :: dict where
  "sesion_ej = [''asignatura'' \<mapsto> ''Redes'', ''competencia'' \<mapsto> ''Instalar redes'',
                ''resultados'' \<mapsto> ''Configura un router'', ''trimestre'' \<mapsto> ''2'']"

definition cfg_ej :: config where
  "cfg_ej =
     \<lparr>num_instructores = 2,
      instructores = [[''Nombre'' \<mapsto> ''Ana''], [''Nombre'' \<mapsto> ''Luis'']],
      num_grupos = 1,
      grupos = [[''Ficha'' \<mapsto> ''F1'', ''Programa'' \<mapsto> ''Sistemas'', ''Trimestre'' \<mapsto> ''2'']],
      dias_no_laborables = [1],
      ambientes = [''Aula 1''],
      curriculo_sessions = [sesion_ej],
      curriculo_por_trimestre = [''2'' \<mapsto> [sesion_ej]],
      horas_por_asignacion = 4,
      num_dias = 2,
      max_horas_semana = 40,
      max_dias_semana = 6,
      fecha_inicio = Some 739001,
      forzar_equidad = True\<rparr>"

definition val_ej :: valuacion where
  "val_ej x =
     (case x of
        Asig i d g \<Rightarrow> (if i = 1 \<and> d = 0 \<and> g = 0 then 1 else 0)
      | Trabajo i d \<Rightarrow> (if i = 1 \<and> d = 0 then 1 else 0)
      | Carga i \<Rightarrow> (if i = 1 then 1 else 0)
      | MaxCarga \<Rightarrow> 1
      | MinCarga \<Rightarrow> 0)"

definition modelo_ej :: modelo where
  "modelo_ej =
     \<lparr>variables = vars_asignacion cfg_ej @ vars_trabajo cfg_ej @ vars_carga cfg_ej,
      restricciones =
        [Add (Var (Asig 0 1 0)) Eq (Num 0), Add (Var (Asig 1 1 0)) Eq (Num 0)] @
        restr_cobertura cfg_ej @ restr_exclusividad cfg_ej @ restr_semanales cfg_ej @
        restr_equidad cfg_ej @ restr_objetivo cfg_ej,
      minimizar = (MaxCarga, MinCarga)\<rparr>"

text \<open>
  A solver that gives this answer, the text of the two dates of the horizon (25 and 26
  April 2024) as \<open>strftime\<close> writes them, and the row the answer is expanded into.
\<close>

definition respuesta_ej :: respuesta where
  "respuesta_ej =
     \<lparr>status = OPTIMAL, valor = val_ej, wall_time = 1 / 4, num_conflicts = 0,
      num_branches = 3\<rparr>"

definition solver_ej :: solver where
  "solver_ej m = respuesta_ej"

definition fmt_ej :: "int \<Rightarrow> string" where
  "fmt_ej n =
     (if n = 739001 then ''2024-04-25'' else if n = 739002 then ''2024-04-26'' else [])"

definition fila_ej :: fila where
  "fila_ej =
     \<lparr>Fecha = ''2024-04-25'', Dia = ''Jueves'', Jornada = Manana, Ficha = ''F1'',
      Programa = ''Sistemas'', Trimestre = ''2'', Hora_Inicio = ''08:00'',
      Hora_Fin = ''13:00'', Municipio = ''N/A'', Asignatura = ''Redes'',
      Competencia = ''Instalar redes'', Resultados_de_Aprendizaje = ''Configura un router'',
      Instructor = ''Luis'', Jornada_del_Instructor = ''N/A'', Ambiente = ''Aula 1'',
      Estado = ''Programado'', Notas = [], Festivo = ''No'',
      Exclusiones_del_Instructor = ''N/A''\<rparr>"

text \<open>The same inputs over a horizon of one day, which is the holiday.\<close>

definition cfg_festivo :: config where
  "cfg_festivo = cfg_ej\<lparr>num_dias := 1, dias_no_laborables := [0]\<rparr>"

text \<open>
  One instructor, one group, one working day, sessions of four hours and a weekly
  allowance of three hours.
\<close>

definition cfg_corta :: config where
  "cfg_corta =
     \<lparr>num_instructores = 1,
      instructores = [[''Nombre'' \<mapsto> ''Ana'']],
      num_grupos = 1,
      grupos = [[''Ficha'' \<mapsto> ''F1'', ''Programa'' \<mapsto> ''Sistemas'', ''Trimestre'' \<mapsto> ''2'']],
      dias_no_laborables = [],
      ambientes = [''Aula 1''],
      curriculo_sessions = [sesion_ej],
      curriculo_por_trimestre = [''2'' \<mapsto> [sesion_ej]],
      horas_por_asignacion = 4,
      num_dias = 1,
      max_horas_semana = 3,
      max_dias_semana = 6,
      fecha_inicio = Some 739001,
      forzar_equidad = True\<rparr>"

definition val_corta :: valuacion where
  "val_corta x = 1"

definition modelo_corta :: modelo where
  "modelo_corta =
     \<lparr>variables = vars_asignacion cfg_corta @ vars_trabajo cfg_corta @ vars_carga cfg_corta,
      restricciones =
        restr_cobertura cfg_corta @ restr_exclusividad cfg_corta @
        restr_semanales cfg_corta @ restr_equidad cfg_corta @ restr_objetivo cfg_corta,
      minimizar = (MaxCarga, MinCarga)\<rparr>"

text \<open>
  The worked configuration without groups, over seven days of which the weekend is not
  worked, and a solver that answers all zeros.
\<close>

definition cfg_sin_grupos :: config where
  "cfg_sin_grupos =
     cfg_ej\<lparr>num_grupos := 0, grupos := [], num_dias := 7, dias_no_laborables := [2, 3]\<rparr>"

definition respuesta_cero :: respuesta where
  "respuesta_cero =
     \<lparr>status = OPTIMAL, valor = (\<lambda>x. 0), wall_time = 0, num_conflicts = 0,
      num_branches = 0\<rparr>"

definition solver_cero :: solver where
  "solver_cero m = respuesta_cero"

text \<open>The worked configuration with no curriculum at all.\<close>

definition cfg_sin_curriculo :: config where
  "cfg_sin_curriculo = cfg_ej\<lparr>curriculo_sessions := [], curriculo_por_trimestre := Map.empty\<rparr>"

text \<open>What the loader has read when the sheet of groups has no rows, and some settings.\<close>

definition leido_sin_grupos :: parseado where
  "leido_sin_grupos =
     \<lparr>p_grupos = [], p_instructores = [[''Nombre'' \<mapsto> ''Ana'']],
      p_ambientes = [''Aula 1''], p_curriculo_sessions = [sesion_ej],
      p_horas_por_asignacion = 4\<rparr>"

definition ajustes_ej :: ajustes where
  "ajustes_ej =
     \<lparr>a_fecha_inicio = 739001, a_num_dias = 7, a_max_horas_semana = 40,
      a_max_dias_semana = 6, a_forzar_equidad = True\<rparr>"

text \<open>What the loader has read from sheets with one group and two instructors.\<close>

definition leido_ej :: parseado where
  "leido_ej =
     \<lparr>p_grupos = [[''Ficha'' \<mapsto> ''F1'', ''Programa'' \<mapsto> ''Sistemas'', ''Trimestre'' \<mapsto> ''2'']],
      p_instructores = [[''Nombre'' \<mapsto> ''Ana''], [''Nombre'' \<mapsto> ''Luis'']],
      p_ambientes = [''Aula 1''], p_curriculo_sessions = [sesion_ej],
      p_horas_por_asignacion = 4\<rparr>"

text \<open>
  What the handler would pass on for sheets with a group and no instructor, were the
  loader to let them through: seven days from Thursday 2024-04-25, the weekend not
  worked. And a solver that finds no solution.
\<close>

definition cfg_sin_instructores :: config where
  "cfg_sin_instructores =
     \<lparr>num_instructores = 0,
      instructores = [],
      num_grupos = 1,
      grupos = [[''Ficha'' \<mapsto> ''F1'', ''Programa'' \<mapsto> ''Sistemas'', ''Trimestre'' \<mapsto> ''2'']],
      dias_no_laborables = [2, 3],
      ambientes = [''Aula 1''],
      curriculo_sessions = [sesion_ej],
      curriculo_por_trimestre = [''2'' \<mapsto> [sesion_ej]],
      horas_por_asignacion = 4,
      num_dias = 7,
      max_horas_semana = 40,
      max_dias_semana = 6,
      fecha_inicio = Some 739001,
      forzar_equidad = True\<rparr>"

definition respuesta_infactible :: respuesta where
  "respuesta_infactible =
     \<lparr>status = INFEASIBLE, valor = (\<lambda>x. 0), wall_time = 0, num_conflicts = 0,
      num_branches = 0\<rparr>"

definition solver_infactible :: solver where
  "solver_infactible m = respuesta_infactible"

definition modelo_sin_instructores :: modelo where
  "modelo_sin_instructores =
     \<lparr>variables = vars_asignacion cfg_sin_instructores @ vars_trabajo cfg_sin_instructores @
        vars_carga cfg_sin_instructores,
      restricciones =
        restr_cobertura cfg_sin_instructores @ restr_exclusividad cfg_sin_instructores @
        restr_semanales cfg_sin_instructores @ restr_equidad cfg_sin_instructores @
        restr_objetivo cfg_sin_instructores,
      minimizar = (MaxCarga, MinCarga)\<rparr>"

section \<open>Properties of the model builder\<close>

lemma en_rango: "x \<in> set (rango n) \<longleftrightarrow> 0 \<le> x \<and> x < n"
  by (auto simp: rango_def)

lemma distinct_rango: "distinct (rango n)"
  by (simp add: rango_def)

lemma construir_modelo_Inr:
  assumes "construir_modelo c = Inr m"
  shows "\<exists>r1. restr_no_laborables c = Inr r1 \<and>
     variables m = vars_asignacion c @ vars_trabajo c @ vars_carga c \<and>
     restricciones m = r1 @ restr_cobertura c @ restr_exclusividad c @ restr_semanales c @
                 restr_equidad c @ restr_objetivo c \<and> minimizar m = (MaxCarga, MinCarga)"
  using assms by (auto simp: construir_modelo_def split: sum.splits if_splits)

lemma construir_modelo_acepta:
  assumes "construir_modelo c = Inr m"
  shows "\<not> rechaza_entero c"
  using assms by (auto simp: construir_modelo_def split: sum.splits if_splits)

lemma satisface_cumple:
  "satisface v m \<Longrightarrow> r \<in> set (restricciones m) \<Longrightarrow> cumple v r"
  by (simp add: satisface_def list_all_iff)

lemma satisface_dominio:
  "satisface v m \<Longrightarrow> x \<in> set (variables m) \<Longrightarrow> en_dominio v x"
  by (simp add: satisface_def list_all_iff)

lemma sum_list_concat_map:
  "sum_list (concat (map f xs)) = (\<Sum>x\<leftarrow>xs. sum_list (f x))"
  by (induction xs) simp_all

lemma suma_total_instructor:
  "sum_list (map v (total_instructor c i)) =
     (\<Sum>d\<leftarrow>rango (num_dias c). \<Sum>g\<leftarrow>rango (num_grupos c). v (Asig i d g))"
  by (simp add: total_instructor_def map_concat sum_list_concat_map comp_def)

lemma equidad_en_modelo:
  assumes "construir_modelo c = Inr m" "forzar_equidad c" "i \<in> set (rango (num_instructores c))"
  shows "Add (Suma (total_instructor c i)) Ge (Num (max 0 (min_asign_por_inst c - margen c)))
           \<in> set (restricciones m)"
    and "Add (Suma (total_instructor c i)) Le (Num (max_asign_por_inst c + margen c))
           \<in> set (restricciones m)"
proof -
  from assms(3) have pos: "num_instructores c > 0" by (simp add: en_rango)
  obtain r1 where r: "restricciones m = r1 @ restr_cobertura c @ restr_exclusividad c @ restr_semanales c @
                 restr_equidad c @ restr_objetivo c"
    using construir_modelo_Inr[OF assms(1)] by blast
  show "Add (Suma (total_instructor c i)) Ge (Num (max 0 (min_asign_por_inst c - margen c)))
           \<in> set (restricciones m)"
    using assms(2,3) pos by (auto simp: r restr_equidad_def)
  show "Add (Suma (total_instructor c i)) Le (Num (max_asign_por_inst c + margen c))
           \<in> set (restricciones m)"
    using assms(2,3) pos by (auto simp: r restr_equidad_def)
qed

lemma semanal_en_modelo:
  assumes "construir_modelo c = Inr m" and "i \<in> set (rango (num_instructores c))"
    and "w \<in> set (rango (num_semanas c))"
  shows "set (restr_semana c i w) \<subseteq> set (restricciones m)"
proof -
  obtain r1 where r: "restricciones m = r1 @ restr_cobertura c @ restr_exclusividad c @
      restr_semanales c @ restr_equidad c @ restr_objetivo c"
    using construir_modelo_Inr [OF assms(1)] by blast
  have "set (restr_semana c i w) \<subseteq> set (restr_semanales c)"
    using assms(2,3) by (auto simp: restr_semanales_def)
  then show ?thesis by (auto simp: r)
qed

lemma suma_asignaciones_semana:
  "sum_list (map v (asignaciones_semana c i w)) =
     (\<Sum>d\<leftarrow>dias_semana c w. \<Sum>g\<leftarrow>rango (num_grupos c). v (Asig i d g))"
  by (simp add: asignaciones_semana_def map_concat sum_list_concat_map comp_def)

lemmas sin_topes =
  rango_def rango2_def clave_asignacion_def restr_no_laborables_def restr_cobertura_def
  restr_exclusividad_def dias_semana_def laborables_semana_def asignaciones_semana_def
  asignaciones_dia_def restr_trabajo_dia_def
  vars_trabajo_def vars_asignacion_def total_instructor_def restr_equidad_def cargas_def
  vars_carga_def restr_objetivo_def dias_laborables_def horas_efectivas_def
  num_semanas_def total_asignaciones_def min_asign_por_inst_def
  max_asign_por_inst_def margen_def

lemma max_asignaciones_mono:
  assumes "max_horas_semana c \<le> h"
  shows "max_asignaciones_semana c \<le> max_asignaciones_semana (c\<lparr>max_horas_semana := h, max_dias_semana := k\<rparr>)"
proof -
  have "0 < max 1 (horas_por_asignacion c)" by simp
  from zdiv_mono1 [OF assms this] show ?thesis
    by (simp add: max_asignaciones_semana_def horas_efectivas_def)
qed

lemma restr_semana_mono:
  assumes "\<forall>r \<in> set (restr_semana c i w). cumple v r"
    and "max_horas_semana c \<le> h" and "max_dias_semana c \<le> k"
  shows "\<forall>r \<in> set (restr_semana (c\<lparr>max_horas_semana := h, max_dias_semana := k\<rparr>) i w). cumple v r"
proof -
  let ?c = "c\<lparr>max_horas_semana := h, max_dias_semana := k\<rparr>"
  have e1: "asignaciones_semana ?c i w = asignaciones_semana c i w"
    and e2: "laborables_semana ?c w = laborables_semana c w"
    and e3: "restr_trabajo_dia ?c i = restr_trabajo_dia c i"
    by (simp_all add: sin_topes fun_eq_iff cong: if_cong)
  from assms(1) have a: "sum_list (map v (asignaciones_semana c i w)) \<le> max_asignaciones_semana c"
    by (simp add: restr_semana_def)
  from assms(1) have b: "\<forall>r \<in> set (concat (map (restr_trabajo_dia c i) (laborables_semana c w))). cumple v r"
    by (simp add: restr_semana_def)
  from assms(1) have d: "laborables_semana c w \<noteq> [] \<Longrightarrow>
      sum_list (map v (map (Trabajo i) (laborables_semana c w))) \<le> max_dias_semana c"
    by (simp add: restr_semana_def)
  show ?thesis
    unfolding restr_semana_def e1 e2 e3
    using a b d max_asignaciones_mono [OF assms(2), of k] assms(3)
    by (auto simp del: set_concat)
qed

section \<open>Properties of \<open>generar_horario_optimo\<close>\<close>

lemma generar_sin_dias:
  "dias_laborables c \<le> 0 \<Longrightarrow>
   generar_horario_optimo c s fmt hoy =
     Inr \<lparr>filas = [], estado = ''NO_DIAS_LABORABLES'', stats = Map.empty, resueltos = []\<rparr>"
  by (simp add: generar_horario_optimo_def)

lemma generar_Inr:
  assumes "generar_horario_optimo c s fmt hoy = Inr res" and "dias_laborables c > 0"
  shows "\<exists>m. construir_modelo c = Inr m \<and> resueltos res = [m] \<and>
           estado res = status_name (status (s m)) \<and> stats res = stats_solver c (s m) \<and>
           (if status (s m) = OPTIMAL \<or> status (s m) = FEASIBLE
            then \<exists>rs. resultados c fmt (fecha_de_inicio c hoy) (valor (s m)) = Inr rs \<and>
                      filas res = sort_values rs
            else filas res = [])"
proof (cases "construir_modelo c")
  case (Inl e)
  with assms show ?thesis by (simp add: generar_horario_optimo_def)
next
  case (Inr m)
  show ?thesis
  proof (cases "status (s m) = OPTIMAL \<or> status (s m) = FEASIBLE")
    case True
    with assms Inr show ?thesis
      by (cases "resultados c fmt (fecha_de_inicio c hoy) (valor (s m))")
         (auto simp: generar_horario_optimo_def materializar_def Let_def)
  next
    case False
    with assms Inr show ?thesis
      by (auto simp: generar_horario_optimo_def Let_def)
  qed
qed

lemma status_name_cases:
  "status_name st \<in> {''OPTIMAL'', ''FEASIBLE'', ''INFEASIBLE'', ''MODEL_INVALID'', ''UNKNOWN''}"
  by (cases st) (simp_all add: status_name_def status_names_def)

lemma status_name_solucion:
  "(status_name st = ''OPTIMAL'' \<or> status_name st = ''FEASIBLE'') \<longleftrightarrow>
   (st = OPTIMAL \<or> st = FEASIBLE)"
  by (cases st) (simp_all add: status_name_def status_names_def)

lemma dom_stats_solver:
  "dom (stats_solver c r) =
     {''total_asignaciones_esperadas'', ''dias_laborables'', ''ramas'', ''conflictos'',
      ''tiempo_solver'', ''status''}"
  by (simp add: stats_solver_def)

section \<open>Properties of the materialisation\<close>

lemma suma_indicadores:
  assumes "\<forall>x \<in> set xs. f x = 0 \<or> f x = (1::int)"
  shows "sum_list (map f xs) = int (length (filter (\<lambda>x. f x = 1) xs))"
  using assms by (induction xs) auto

lemma distinct_concat_map:
  assumes "distinct xs" and "\<forall>x \<in> set xs. distinct (f x)"
    and "\<forall>x \<in> set xs. \<forall>y \<in> set (f x). key y = x"
  shows "distinct (concat (map f xs))"
  using assms
proof (induction xs)
  case Nil
  then show ?case by simp
next
  case (Cons x xs)
  have "set (f x) \<inter> set (concat (map f xs)) = {}"
  proof (rule ccontr)
    assume "set (f x) \<inter> set (concat (map f xs)) \<noteq> {}"
    then obtain y x' where "y \<in> set (f x)" "x' \<in> set xs" "y \<in> set (f x')" by auto
    with Cons.prems(3) have "key y = x" "key y = x'" by auto
    with \<open>x' \<in> set xs\<close> Cons.prems(1) show False by auto
  qed
  with Cons show ?case by auto
qed

lemma set_asignados:
  "set (asignados c v) =
     {(d, g, i). d \<in> set (rango (num_dias c)) \<and> g \<in> set (rango (num_grupos c)) \<and>
                 i \<in> set (rango (num_instructores c)) \<and> v (Asig i d g) = 1}"
  by (auto simp: asignados_def split: if_splits)

lemma distinct_asignados: "distinct (asignados c v)"
  unfolding asignados_def
proof (rule distinct_concat_map [where key = fst], goal_cases)
  case 1
  show ?case by (rule distinct_rango)
next
  case 2
  show ?case
  proof
    fix d
    show "distinct (concat (map (\<lambda>g. concat (map (\<lambda>i. if v (Asig i d g) = 1 then [(d, g, i)] else [])
            (rango (num_instructores c)))) (rango (num_grupos c))))"
    proof (rule distinct_concat_map [where key = "fst \<circ> snd"], goal_cases)
      case 1
      show ?case by (rule distinct_rango)
    next
      case 2
      show ?case
      proof
        fix g
        show "distinct (concat (map (\<lambda>i. if v (Asig i d g) = 1 then [(d, g, i)] else [])
            (rango (num_instructores c))))"
          by (rule distinct_concat_map [where key = "snd \<circ> snd"])
             (auto simp: distinct_rango)
      qed
    next
      case 3
      show ?case by (auto split: if_splits)
    qed
  qed
next
  case 3
  show ?case by (auto split: if_splits)
qed

lemma secuencia_concat:
  "secuencia (map f xs) = Inr ys \<Longrightarrow> \<forall>x \<in> set xs. \<forall>a. f x = Inr a \<longrightarrow> a = h x \<Longrightarrow>
   ys = concat (map h xs)"
  by (induction xs arbitrary: ys) (auto split: sum.splits)

lemma secuencia_todos:
  "\<forall>x \<in> set xs. f x = Inr (h x) \<Longrightarrow> secuencia (map f xs) = Inr (concat (map h xs))"
  by (induction xs) auto

lemma resultados_Inr:
  assumes "resultados c fmt fi v = Inr rs"
  shows "rs = map (\<lambda>(d, g, i). fila_de c fmt fi d g i) (asignados c v)"
proof -
  let ?F = "\<lambda>(d, g, i). fila_de c fmt fi d g i"
  have u: "\<And>d g i a. una_fila c fmt fi v d g i = Inr a \<Longrightarrow>
        a = map ?F (if v (Asig i d g) = 1 then [(d, g, i)] else [])"
    by (auto simp: una_fila_def split: if_splits)
  have g: "\<And>d g a. filas_grupo c fmt fi v d g = Inr a \<Longrightarrow>
        a = map ?F (concat (map (\<lambda>i. if v (Asig i d g) = 1 then [(d, g, i)] else [])
                      (rango (num_instructores c))))"
  proof -
    fix d g a assume "filas_grupo c fmt fi v d g = Inr a"
    then have "secuencia (map (una_fila c fmt fi v d g) (rango (num_instructores c))) = Inr a"
      by (simp add: filas_grupo_def split: if_splits)
    from secuencia_concat [OF this, of "\<lambda>i. map ?F (if v (Asig i d g) = 1 then [(d, g, i)] else [])"] u
    show "a = map ?F (concat (map (\<lambda>i. if v (Asig i d g) = 1 then [(d, g, i)] else [])
                      (rango (num_instructores c))))"
      by (simp add: map_concat comp_def)
  qed
  have d: "\<And>d a. filas_dia c fmt fi v d = Inr a \<Longrightarrow>
        a = map ?F (concat (map (\<lambda>g. concat (map (\<lambda>i. if v (Asig i d g) = 1 then [(d, g, i)] else [])
                      (rango (num_instructores c)))) (rango (num_grupos c))))"
  proof -
    fix d a assume "filas_dia c fmt fi v d = Inr a"
    then have "secuencia (map (filas_grupo c fmt fi v d) (rango (num_grupos c))) = Inr a"
      by (simp add: filas_dia_def split: sum.splits)
    from secuencia_concat [OF this, of "\<lambda>g. map ?F (concat (map (\<lambda>i. if v (Asig i d g) = 1 then [(d, g, i)] else [])
                      (rango (num_instructores c))))"] g
    show "a = map ?F (concat (map (\<lambda>g. concat (map (\<lambda>i. if v (Asig i d g) = 1 then [(d, g, i)] else [])
                      (rango (num_instructores c)))) (rango (num_grupos c))))"
      by (simp add: map_concat comp_def)
  qed
  from assms have "secuencia (map (filas_dia c fmt fi v) (rango (num_dias c))) = Inr rs"
    by (simp add: resultados_def)
  from secuencia_concat [OF this, of "\<lambda>d. map ?F (concat (map (\<lambda>g. concat (map (\<lambda>i. if v (Asig i d g) = 1 then [(d, g, i)] else [])
                      (rango (num_instructores c)))) (rango (num_grupos c))))"] d
  show ?thesis
    by (simp add: asignados_def map_concat comp_def)
qed

lemma insort_key_map:
  "insort_key k (f x) (map f xs) = map f (insort_key (\<lambda>y. k (f y)) x xs)"
  by (induction xs) auto

lemma sort_key_map: "sort_key k (map f xs) = map f (sort_key (\<lambda>y. k (f y)) xs)"
  by (induction xs) (auto simp: insort_key_map)

lemma sort_values_map:
  "sort_values (map (\<lambda>(d, g, i). fila_de c fmt fi d g i) (asignados c v)) =
     map (\<lambda>(d, g, i). fila_de c fmt fi d g i) (emitidos c fmt fi v)"
proof -
  have "(\<lambda>y. clave_orden (case y of (d, g, i) \<Rightarrow> fila_de c fmt fi d g i)) =
        (\<lambda>(d, g, i). clave_orden (fila_de c fmt fi d g i))"
    by (simp add: fun_eq_iff split: prod.splits)
  then show ?thesis
    by (simp add: sort_values_def emitidos_def sort_key_map)
qed

lemma set_emitidos: "set (emitidos c fmt fi v) = set (asignados c v)"
  by (simp add: emitidos_def)

lemma distinct_emitidos: "distinct (emitidos c fmt fi v)"
  by (simp add: emitidos_def distinct_asignados)

lemma asignacion_booleana:
  assumes "construir_modelo c = Inr m" and "satisface v m"
    and "i \<in> set (rango (num_instructores c))" and "d \<in> set (rango (num_dias c))"
    and "g \<in> set (rango (num_grupos c))"
  shows "v (Asig i d g) = 0 \<or> v (Asig i d g) = 1"
proof -
  have "NewBoolVar (Asig i d g) \<in> set (vars_asignacion c)"
    using assms(3-5) by (auto simp: vars_asignacion_def)
  then have "NewBoolVar (Asig i d g) \<in> set (variables m)"
    using construir_modelo_Inr [OF assms(1)] by auto
  from satisface_dominio [OF assms(2) this] show ?thesis by simp
qed

lemma cobertura_en_modelo:
  assumes "construir_modelo c = Inr m" and "satisface v m"
    and "dia_laborable c d" and "g \<in> set (rango (num_grupos c))"
  shows "length (filter (\<lambda>i. v (Asig i d g) = 1) (rango (num_instructores c))) = 1"
proof -
  have "AddExactlyOne (map (\<lambda>i. Asig i d g) (rango (num_instructores c)))
          \<in> set (restr_cobertura c)"
    using assms(3,4) by (auto simp: restr_cobertura_def dia_laborable_def)
  then have "AddExactlyOne (map (\<lambda>i. Asig i d g) (rango (num_instructores c)))
          \<in> set (restricciones m)"
    using construir_modelo_Inr [OF assms(1)] by auto
  from satisface_cumple [OF assms(2) this]
  have s: "sum_list (map (\<lambda>i. v (Asig i d g)) (rango (num_instructores c))) = 1"
    by (simp add: comp_def)
  have "\<forall>i \<in> set (rango (num_instructores c)). v (Asig i d g) = 0 \<or> v (Asig i d g) = 1"
    using asignacion_booleana [OF assms(1,2)] assms(3,4) by (simp add: dia_laborable_def)
  from suma_indicadores [OF this] s show ?thesis by simp
qed

lemma exclusividad_en_modelo:
  assumes "construir_modelo c = Inr m" and "satisface v m"
    and "i \<in> set (rango (num_instructores c))" and "d \<in> set (rango (num_dias c))"
  shows "length (filter (\<lambda>g. v (Asig i d g) = 1) (rango (num_grupos c))) \<le> 1"
proof -
  have "AddAtMostOne (map (\<lambda>g. Asig i d g) (rango (num_grupos c)))
          \<in> set (restr_exclusividad c)"
    using assms(3,4) by (auto simp: restr_exclusividad_def)
  then have "AddAtMostOne (map (\<lambda>g. Asig i d g) (rango (num_grupos c)))
          \<in> set (restricciones m)"
    using construir_modelo_Inr [OF assms(1)] by auto
  from satisface_cumple [OF assms(2) this]
  have s: "sum_list (map (\<lambda>g. v (Asig i d g)) (rango (num_grupos c))) \<le> 1"
    by (simp add: comp_def)
  have "\<forall>g \<in> set (rango (num_grupos c)). v (Asig i d g) = 0 \<or> v (Asig i d g) = 1"
    using asignacion_booleana [OF assms(1,2,3,4)] by simp
  from suma_indicadores [OF this] s show ?thesis by simp
qed

lemma no_laborable_en_modelo:
  assumes "construir_modelo c = Inr m" and "satisface v m"
    and "i \<in> set (rango (num_instructores c))" and "d \<in> set (dias_no_laborables c)"
    and "g \<in> set (rango (num_grupos c))"
  shows "v (Asig i d g) = 0"
proof -
  obtain r1 where r1: "restr_no_laborables c = Inr r1"
    and rs: "restricciones m = r1 @ restr_cobertura c @ restr_exclusividad c @
      restr_semanales c @ restr_equidad c @ restr_objetivo c"
    using construir_modelo_Inr [OF assms(1)] by blast
  from r1 have "r1 = [Add (Var (Asig i d g)) Eq (Num 0).
                  d \<leftarrow> dias_no_laborables c, g \<leftarrow> rango (num_grupos c),
                  i \<leftarrow> rango (num_instructores c)]"
    by (simp add: restr_no_laborables_def split: if_splits)
  then have "Add (Var (Asig i d g)) Eq (Num 0) \<in> set r1"
    using assms(3-5) by auto
  then have "Add (Var (Asig i d g)) Eq (Num 0) \<in> set (restricciones m)"
    by (simp add: rs)
  from satisface_cumple [OF assms(2) this] show ?thesis by simp
qed

lemma cuenta_por_dia_grupo:
  "length (filter (\<lambda>(d', g', i'). d' = d \<and> g' = g) (emitidos c fmt fi v)) =
     (if d \<in> set (rango (num_dias c)) \<and> g \<in> set (rango (num_grupos c))
      then length (filter (\<lambda>i. v (Asig i d g) = 1) (rango (num_instructores c))) else 0)"
proof -
  let ?ts = "emitidos c fmt fi v"
  let ?is = "filter (\<lambda>i. v (Asig i d g) = 1) (rango (num_instructores c))"
  have "length (filter (\<lambda>(d', g', i'). d' = d \<and> g' = g) ?ts) =
        card (set (filter (\<lambda>(d', g', i'). d' = d \<and> g' = g) ?ts))"
    by (simp add: distinct_card distinct_emitidos del: set_filter)
  also have "set (filter (\<lambda>(d', g', i'). d' = d \<and> g' = g) ?ts) =
      (if d \<in> set (rango (num_dias c)) \<and> g \<in> set (rango (num_grupos c))
       then (\<lambda>i. (d, g, i)) ` set ?is else {})"
    by (auto simp: set_emitidos set_asignados)
  also have "card \<dots> = (if d \<in> set (rango (num_dias c)) \<and> g \<in> set (rango (num_grupos c))
       then length ?is else 0)"
    by (simp add: card_image inj_on_def distinct_card distinct_rango del: set_filter)
  finally show ?thesis .
qed

lemma cuenta_por_dia_instructor:
  "length (filter (\<lambda>(d', g', i'). d' = d \<and> i' = i) (emitidos c fmt fi v)) =
     (if d \<in> set (rango (num_dias c)) \<and> i \<in> set (rango (num_instructores c))
      then length (filter (\<lambda>g. v (Asig i d g) = 1) (rango (num_grupos c))) else 0)"
proof -
  let ?ts = "emitidos c fmt fi v"
  let ?gs = "filter (\<lambda>g. v (Asig i d g) = 1) (rango (num_grupos c))"
  have "length (filter (\<lambda>(d', g', i'). d' = d \<and> i' = i) ?ts) =
        card (set (filter (\<lambda>(d', g', i'). d' = d \<and> i' = i) ?ts))"
    by (simp add: distinct_card distinct_emitidos del: set_filter)
  also have "set (filter (\<lambda>(d', g', i'). d' = d \<and> i' = i) ?ts) =
      (if d \<in> set (rango (num_dias c)) \<and> i \<in> set (rango (num_instructores c))
       then (\<lambda>g. (d, g, i)) ` set ?gs else {})"
    by (auto simp: set_emitidos set_asignados)
  also have "card \<dots> = (if d \<in> set (rango (num_dias c)) \<and> i \<in> set (rango (num_instructores c))
       then length ?gs else 0)"
    by (simp add: card_image inj_on_def distinct_card distinct_rango del: set_filter)
  finally show ?thesis .
qed

lemma secuencia_ok_iff:
  "(\<exists>ys. secuencia (map f xs) = Inr ys) = (\<forall>x \<in> set xs. \<exists>a. f x = Inr a)"
  by (induction xs) (auto split: sum.splits)

lemma una_fila_ok_iff:
  "(\<exists>a. una_fila c fmt fi v d g i = Inr a) =
     (v (Asig i d g) = 1 \<longrightarrow> i < int (length (instructores c)) \<and> ambientes c \<noteq> [])"
  by (auto simp: una_fila_def)

lemma filas_grupo_ok_iff:
  "(\<exists>a. filas_grupo c fmt fi v d g = Inr a) =
     (g < int (length (grupos c)) \<and>
      (\<forall>i \<in> set (rango (num_instructores c)).
         v (Asig i d g) = 1 \<longrightarrow> i < int (length (instructores c)) \<and> ambientes c \<noteq> []))"
  by (simp add: filas_grupo_def secuencia_ok_iff una_fila_ok_iff)

lemma filas_dia_ok_iff:
  "(\<exists>a. filas_dia c fmt fi v d = Inr a) =
     ((d \<le> 999999999 \<and> 1 \<le> fi + d \<and> fi + d \<le> 3652059) \<and>
      (\<forall>g \<in> set (rango (num_grupos c)).
         g < int (length (grupos c)) \<and>
         (\<forall>i \<in> set (rango (num_instructores c)).
            v (Asig i d g) = 1 \<longrightarrow> i < int (length (instructores c)) \<and> ambientes c \<noteq> [])))"
  by (auto simp: filas_dia_def fecha_real_def secuencia_ok_iff filas_grupo_ok_iff)

lemma resultados_ok_iff:
  "(\<exists>rs. resultados c fmt fi v = Inr rs) =
     (\<forall>d \<in> set (rango (num_dias c)).
        (d \<le> 999999999 \<and> 1 \<le> fi + d \<and> fi + d \<le> 3652059) \<and>
        (\<forall>g \<in> set (rango (num_grupos c)).
           g < int (length (grupos c)) \<and>
           (\<forall>i \<in> set (rango (num_instructores c)).
              v (Asig i d g) = 1 \<longrightarrow> i < int (length (instructores c)) \<and> ambientes c \<noteq> [])))"
  by (simp add: resultados_def secuencia_ok_iff filas_dia_ok_iff)

section \<open>Configurations without groups or without instructors\<close>

lemma rango_vacio: "n \<le> 0 \<Longrightarrow> rango n = []"
  by (simp add: rango_def)

lemma concat_vacios: "concat (map (\<lambda>x. []) xs) = []"
  by (induction xs) simp_all

lemma asignaciones_semana_sin_grupos:
  "num_grupos c \<le> 0 \<Longrightarrow> asignaciones_semana c i w = []"
  by (simp add: asignaciones_semana_def rango_vacio concat_vacios)

lemma total_instructor_sin_grupos:
  "num_grupos c \<le> 0 \<Longrightarrow> total_instructor c i = []"
  by (simp add: total_instructor_def rango_vacio concat_vacios)

lemma sin_grupos_modelo:
  assumes "num_grupos c = 0" and "en_int64 (max_dias_semana c)"
  shows "\<exists>m. construir_modelo c = Inr m"
proof -
  have "restr_no_laborables c = Inr []"
    using assms(1) by (simp add: restr_no_laborables_def rango_vacio concat_vacios)
  moreover have "\<not> rechaza_entero c"
    using assms
    by (simp add: rechaza_entero_def asignaciones_semana_sin_grupos
        total_instructor_sin_grupos total_asignaciones_def en_int64_def)
  ultimately show ?thesis by (simp add: construir_modelo_def)
qed

lemma modelo_sin_rechazo:
  assumes "num_instructores c = 0 \<or> num_grupos c = 0"
    and "en_int64 (max_dias_semana c)" and "en_int64 (total_asignaciones c)"
  shows "\<exists>m. construir_modelo c = Inr m"
proof -
  have "restr_no_laborables c = Inr []"
    using assms(1) by (auto simp: restr_no_laborables_def rango_vacio concat_vacios)
  moreover have "\<not> rechaza_entero c"
    using assms
    by (auto simp: rechaza_entero_def asignaciones_semana_sin_grupos
        total_instructor_sin_grupos rango_vacio)
  ultimately show ?thesis by (simp add: construir_modelo_def)
qed

lemma existe_dia_laborable:
  assumes "dias_laborables c > 0"
  shows "\<exists>d. dia_laborable c d"
proof (rule ccontr)
  assume "\<not> (\<exists>d. dia_laborable c d)"
  then have "set (rango (num_dias c)) \<subseteq> set (dias_no_laborables c)"
    by (auto simp: dia_laborable_def)
  then have "card (set (rango (num_dias c))) \<le> card (set (dias_no_laborables c))"
    by (simp add: card_mono)
  moreover have "card (set (rango (num_dias c))) = length (rango (num_dias c))"
    by (simp add: distinct_card distinct_rango)
  moreover have "int (length (rango (num_dias c))) = max 0 (num_dias c)"
    by (simp add: rango_def)
  moreover have "card (set (dias_no_laborables c)) \<le> length (dias_no_laborables c)"
    by (rule card_length)
  ultimately show False using assms by (simp add: dias_laborables_def)
qed

lemma sin_instructores_insatisfacible:
  assumes "construir_modelo c = Inr m" and "num_instructores c = 0" and "0 < num_grupos c"
    and "dias_laborables c > 0"
  shows "\<not> satisface v m"
proof
  assume sat: "satisface v m"
  from existe_dia_laborable [OF assms(4)] obtain d where d: "dia_laborable c d" by blast
  have "0 \<in> set (rango (num_grupos c))" using assms(3) by (simp add: en_rango)
  from cobertura_en_modelo [OF assms(1) sat d this] assms(2) show False
    by (simp add: rango_vacio)
qed

lemma resultados_sin_grupos:
  assumes "num_grupos c \<le> 0" and "1 \<le> fi" and "fi + num_dias c \<le> 3652060"
  shows "resultados c fmt fi v = Inr []"
proof -
  have "\<forall>d \<in> set (rango (num_dias c)). filas_dia c fmt fi v d = Inr []"
    using assms by (auto simp: filas_dia_def fecha_real_def rango_vacio en_rango)
  from secuencia_todos [OF this] show ?thesis
    by (simp add: resultados_def concat_vacios)
qed

lemma sin_grupos_restricciones:
  assumes "construir_modelo c = Inr m" and "num_grupos c = 0"
  shows "variables m = vars_trabajo c @ vars_carga c"
    and "restricciones m = restr_exclusividad c @ restr_semanales c @ restr_equidad c @
           restr_objetivo c"
    and "vars_asignacion c = []"
proof -
  have r1: "restr_no_laborables c = Inr []"
    using assms(2) by (simp add: restr_no_laborables_def rango_vacio concat_vacios)
  have cob: "restr_cobertura c = []"
    using assms(2) by (simp add: restr_cobertura_def rango_vacio concat_vacios cong: if_cong)
  show va: "vars_asignacion c = []"
    using assms(2) by (simp add: vars_asignacion_def rango_vacio concat_vacios)
  from construir_modelo_Inr [OF assms(1)] r1 cob va
  show "variables m = vars_trabajo c @ vars_carga c"
    and "restricciones m = restr_exclusividad c @ restr_semanales c @ restr_equidad c @
           restr_objetivo c"
    by auto
qed

lemma suma_ceros: "sum_list (map (\<lambda>x. 0::int) xs) = 0"
  by (induction xs) simp_all

lemma ceros_dominio:
  assumes "num_grupos c = 0"
  shows "\<forall>x \<in> set (vars_trabajo c @ vars_carga c). en_dominio (\<lambda>x. 0) x"
  using assms by (auto simp: vars_trabajo_def vars_carga_def total_asignaciones_def)

lemma ceros_exclusividad: "\<forall>r \<in> set (restr_exclusividad c). cumple (\<lambda>x. 0) r"
  by (auto simp: restr_exclusividad_def comp_def suma_ceros)

lemma ceros_semana:
  assumes "0 \<le> max_dias_semana c"
  shows "\<forall>r \<in> set (restr_semana c i w). cumple (\<lambda>x. 0) r"
  using assms
  by (auto simp: restr_semana_def restr_trabajo_dia_def max_asignaciones_semana_def comp_def
      suma_ceros)

lemma ceros_semanales:
  assumes "0 \<le> max_dias_semana c"
  shows "\<forall>r \<in> set (restr_semanales c). cumple (\<lambda>x. 0) r"
  using ceros_semana [OF assms] by (auto simp: restr_semanales_def)

lemma ceros_equidad:
  assumes "num_grupos c = 0"
  shows "\<forall>r \<in> set (restr_equidad c). cumple (\<lambda>x. 0) r"
  using assms
  by (auto simp: restr_equidad_def min_asign_por_inst_def max_asign_por_inst_def margen_def
      total_asignaciones_def)

lemma ceros_objetivo:
  assumes "1 \<le> num_instructores c"
  shows "\<forall>r \<in> set (restr_objetivo c). cumple (\<lambda>x. 0) r"
proof -
  have "rango (num_instructores c) \<noteq> []" using assms by (simp add: rango_def)
  then have "set (rango (num_instructores c)) \<noteq> {}" by simp
  then show ?thesis
    by (auto simp: restr_objetivo_def cargas_def image_constant_conv simp del: set_empty)
qed

lemma sin_grupos_satisfacible:
  assumes "construir_modelo c = Inr m" and "num_grupos c = 0" and "1 \<le> num_instructores c"
    and "0 \<le> max_dias_semana c"
  shows "satisface (\<lambda>x. 0) m"
  using ceros_dominio [OF assms(2)] ceros_exclusividad [of c] ceros_semanales [OF assms(4)]
    ceros_equidad [OF assms(2)] ceros_objetivo [OF assms(3)]
  by (simp add: satisface_def list_all_iff sin_grupos_restricciones [OF assms(1,2)] ball_Un)

lemma sin_grupos_cargas:
  assumes "construir_modelo c = Inr m" and "num_grupos c = 0" and "1 \<le> num_instructores c"
    and "satisface v m"
  shows "\<forall>i \<in> set (rango (num_instructores c)). v (Carga i) = 0"
    and "objetivo v m = 0"
proof -
  note rs = sin_grupos_restricciones(2) [OF assms(1,2)]
  show c0: "\<forall>i \<in> set (rango (num_instructores c)). v (Carga i) = 0"
  proof
    fix i assume i: "i \<in> set (rango (num_instructores c))"
    then have "Add (Var (Carga i)) Eq (Suma (total_instructor c i)) \<in> set (restricciones m)"
      by (auto simp: rs restr_objetivo_def)
    from satisface_cumple [OF assms(4) this] assms(2) show "v (Carga i) = 0"
      by (simp add: total_instructor_sin_grupos)
  qed
  have j: "0 \<in> set (rango (num_instructores c))"
    using assms(3) by (simp add: en_rango)
  have img: "set (map v (cargas c)) = {0}"
  proof
    show "set (map v (cargas c)) \<subseteq> {0}" using c0 by (auto simp: cargas_def)
    from j c0 have "v (Carga 0) = 0" by blast
    with j have "0 \<in> set (map v (cargas c))" by (force simp: cargas_def)
    then show "{0} \<subseteq> set (map v (cargas c))" by simp
  qed
  have "AddMaxEquality MaxCarga (cargas c) \<in> set (restricciones m)"
    and "AddMinEquality MinCarga (cargas c) \<in> set (restricciones m)"
    by (simp_all add: rs restr_objetivo_def)
  from satisface_cumple [OF assms(4) this(1)] satisface_cumple [OF assms(4) this(2)]
  have "v MaxCarga = 0" "v MinCarga = 0"
    by (simp_all only: cumple.simps img) simp_all
  moreover have "minimizar m = (MaxCarga, MinCarga)"
    using construir_modelo_Inr [OF assms(1)] by blast
  ultimately show "objetivo v m = 0" by (simp add: objetivo_def)
qed

text \<open>The worked configuration: its model, and the answer that satisfies it.\<close>

lemma ej_modelo: "construir_modelo cfg_ej = Inr modelo_ej"
  by code_simp

lemma ej_satisface: "satisface val_ej modelo_ej"
  by code_simp

lemma ej_resultados: "resultados cfg_ej fmt_ej 739001 val_ej = Inr [fila_ej]"
  by (simp add: resultados_def filas_dia_def fecha_real_def filas_grupo_def una_fila_def
      fila_de_def fmt_ej_def
      rango_def upto.simps cfg_ej_def val_ej_def fila_ej_def get_dia_semana_def weekday_def
      dias_esp_def jornada_dia_def jornada_options_def Manana_def hora_inicio_str_def hora_fin_str_def
      curr_info_def curr_idx_def sesiones_trimestre_def grupo_trimestre_key_def get_def
      amb_idx_def sesion_ej_def Let_def)

lemma ej_resultado:
  "generar_horario_optimo cfg_ej solver_ej fmt_ej 0 =
     Inr \<lparr>filas = [fila_ej], estado = ''OPTIMAL'', stats = stats_solver cfg_ej respuesta_ej,
          resueltos = [modelo_ej]\<rparr>"
proof -
  have "dias_laborables cfg_ej = 1" by (simp add: dias_laborables_def cfg_ej_def)
  moreover have "fecha_de_inicio cfg_ej 0 = 739001"
    by (simp add: fecha_de_inicio_def cfg_ej_def)
  moreover have "status_name OPTIMAL = ''OPTIMAL''"
    by (simp add: status_name_def status_names_def)
  ultimately show ?thesis
    by (simp add: generar_horario_optimo_def materializar_def ej_modelo solver_ej_def
        respuesta_ej_def ej_resultados sort_values_def)
qed

lemma festivo_sin_dias:
  "num_dias cfg_festivo - int (length (dias_no_laborables cfg_festivo)) \<le> 0"
  by (simp add: cfg_festivo_def)

lemma corta_modelo: "construir_modelo cfg_corta = Inr modelo_corta"
  by code_simp

lemma corta_satisface: "satisface val_corta modelo_corta"
  by code_simp

lemma ej_solver_correcto: "solver_correcto solver_ej modelo_ej"
  by (simp add: solver_correcto_def solver_ej_def respuesta_ej_def ej_satisface)

lemma ej_fecha: "fecha_de_inicio cfg_ej 0 = 739001"
  by (simp add: fecha_de_inicio_def cfg_ej_def)

lemma ej_valor: "valor (solver_ej modelo_ej) = val_ej"
  by (simp add: solver_ej_def respuesta_ej_def)

lemma cero_decide: "solver_decide solver_cero m"
  by (simp add: solver_decide_def solver_cero_def respuesta_cero_def)

lemma sin_grupos_dias:
  "0 < num_dias cfg_sin_grupos - int (length (dias_no_laborables cfg_sin_grupos))"
  by (simp add: cfg_sin_grupos_def cfg_ej_def)

lemma sin_curriculo_resultados:
  "resultados cfg_sin_curriculo fmt_ej 739001 val_ej =
     Inr [fila_ej\<lparr>Asignatura := ''Sin asignatura'', Competencia := ''N/A'',
                  Resultados_de_Aprendizaje := ''N/A''\<rparr>]"
  by (simp add: resultados_def filas_dia_def fecha_real_def filas_grupo_def una_fila_def
      fila_de_def fmt_ej_def
      rango_def upto.simps cfg_sin_curriculo_def cfg_ej_def val_ej_def fila_ej_def
      get_dia_semana_def weekday_def
      dias_esp_def jornada_dia_def jornada_options_def Manana_def hora_inicio_str_def hora_fin_str_def
      curr_info_def curr_idx_def sesiones_trimestre_def grupo_trimestre_key_def get_def
      amb_idx_def sesion_de_relleno_def Let_def)

lemma max_asignaciones_int64:
  assumes "h \<le> 9223372036854775807"
  shows "en_int64 (max_asignaciones_semana (c\<lparr>max_horas_semana := h, max_dias_semana := k\<rparr>))"
proof -
  have e: "0 < max 1 (horas_por_asignacion c)" by simp
  have "h div max 1 (horas_por_asignacion c) \<le> max 0 h"
  proof (cases "0 \<le> h")
    case True
    have "(1::int) \<le> max 1 (horas_por_asignacion c)" by simp
    from zdiv_mono2 [OF True _ this] have "h div max 1 (horas_por_asignacion c) \<le> h div 1"
      by simp
    with True show ?thesis by simp
  next
    case False
    then have "h < 0" by simp
    from div_neg_pos_less0 [OF this e] show ?thesis by simp
  qed
  with assms show ?thesis
    by (auto simp: en_int64_def max_asignaciones_semana_def horas_efectivas_def)
qed

lemma rechaza_entero_mono:
  assumes "\<not> rechaza_entero c" and "max_dias_semana c \<le> k"
    and "h \<le> 9223372036854775807" and "k \<le> 9223372036854775807"
  shows "\<not> rechaza_entero (c\<lparr>max_horas_semana := h, max_dias_semana := k\<rparr>)"
proof -
  let ?c = "c\<lparr>max_horas_semana := h, max_dias_semana := k\<rparr>"
  have same: "\<And>i w. asignaciones_semana ?c i w = asignaciones_semana c i w"
    "\<And>w. laborables_semana ?c w = laborables_semana c w"
    "\<And>i. total_instructor ?c i = total_instructor c i"
    "num_semanas ?c = num_semanas c" "min_asign_por_inst ?c = min_asign_por_inst c"
    "max_asign_por_inst ?c = max_asign_por_inst c" "margen ?c = margen c"
    "total_asignaciones ?c = total_asignaciones c"
    by (simp_all add: sin_topes cong: if_cong)
  have a: "en_int64 (max_asignaciones_semana ?c)"
    by (rule max_asignaciones_int64 [OF assms(3)])
  have b: "\<forall>i \<in> set (rango (num_instructores c)). \<forall>w \<in> set (rango (num_semanas c)).
      laborables_semana c w \<noteq> [] \<longrightarrow> en_int64 k"
  proof (intro ballI impI)
    fix i w assume "i \<in> set (rango (num_instructores c))" "w \<in> set (rango (num_semanas c))"
      "laborables_semana c w \<noteq> []"
    with assms(1) have "en_int64 (max_dias_semana c)"
      unfolding rechaza_entero_def by blast
    with assms(2,4) show "en_int64 k" by (simp add: en_int64_def)
  qed
  from assms(1) have rest:
    "\<not> (forzar_equidad c \<and> num_instructores c > 0 \<and>
       (\<exists>i \<in> set (rango (num_instructores c)).
          total_instructor c i \<noteq> [] \<and>
          (\<not> en_int64 (max 0 (min_asign_por_inst c - margen c)) \<or>
           \<not> en_int64 (max_asign_por_inst c + margen c))))"
    "en_int64 (total_asignaciones c)"
    unfolding rechaza_entero_def by blast+
  have sel: "num_instructores ?c = num_instructores c" "forzar_equidad ?c = forzar_equidad c"
    "max_dias_semana ?c = k"
    by simp_all
  show ?thesis
    unfolding rechaza_entero_def same sel
    using a b rest by blast
qed

lemma sin_instructores_modelo:
  "construir_modelo cfg_sin_instructores = Inr modelo_sin_instructores"
  by code_simp

lemma infactible_correcto: "solver_correcto solver_infactible m"
  by (simp add: solver_correcto_def solver_infactible_def respuesta_infactible_def)

lemma sin_instructores_dias:
  "0 < num_dias cfg_sin_instructores - int (length (dias_no_laborables cfg_sin_instructores))"
  by (simp add: cfg_sin_instructores_def)

section \<open>What the returned rows show\<close>

lemma cobertura_emitidos:
  assumes "generar_horario_optimo c s fmt hoy = Inr res"
    and "estado res = ''OPTIMAL'' \<or> estado res = ''FEASIBLE''"
    and "construir_modelo c = Inr m" and "solver_correcto s m"
  shows "filas res =
           map (\<lambda>(d, g, i). fila_de c fmt (fecha_de_inicio c hoy) d g i)
             (emitidos c fmt (fecha_de_inicio c hoy) (valor (s m))) \<and>
         (\<forall>d g. dia_laborable c d \<and> g \<in> set (rango (num_grupos c)) \<longrightarrow>
            length (filter (\<lambda>(d', g', i'). d' = d \<and> g' = g)
              (emitidos c fmt (fecha_de_inicio c hoy) (valor (s m)))) = 1) \<and>
         (\<forall>d i. length (filter (\<lambda>(d', g', i'). d' = d \<and> i' = i)
              (emitidos c fmt (fecha_de_inicio c hoy) (valor (s m)))) \<le> 1) \<and>
         (\<forall>d. \<not> dia_laborable c d \<longrightarrow>
            filter (\<lambda>(d', g', i'). d' = d)
              (emitidos c fmt (fecha_de_inicio c hoy) (valor (s m))) = [])"
proof -
  let ?fi = "fecha_de_inicio c hoy" and ?v = "valor (s m)"
  have pos: "dias_laborables c > 0"
  proof (rule ccontr)
    assume "\<not> dias_laborables c > 0"
    then have "dias_laborables c \<le> 0" by simp
    from generar_sin_dias [OF this, of s fmt hoy] assms(1,2) show False by auto
  qed
  from generar_Inr [OF assms(1) pos] assms(3)
  have e: "estado res = status_name (status (s m))"
    and f: "if status (s m) = OPTIMAL \<or> status (s m) = FEASIBLE
            then \<exists>rs. resultados c fmt ?fi ?v = Inr rs \<and> filas res = sort_values rs
            else filas res = []"
    by auto
  from assms(2) e have st: "status (s m) = OPTIMAL \<or> status (s m) = FEASIBLE"
    by (simp add: status_name_solucion)
  with assms(4) have sat: "satisface ?v m" by (simp add: solver_correcto_def)
  from f st obtain rs where rs: "resultados c fmt ?fi ?v = Inr rs" "filas res = sort_values rs"
    by auto
  have 1: "filas res = map (\<lambda>(d, g, i). fila_de c fmt ?fi d g i) (emitidos c fmt ?fi ?v)"
    using rs resultados_Inr [OF rs(1)] by (simp add: sort_values_map)
  have 2: "\<forall>d g. dia_laborable c d \<and> g \<in> set (rango (num_grupos c)) \<longrightarrow>
            length (filter (\<lambda>(d', g', i'). d' = d \<and> g' = g) (emitidos c fmt ?fi ?v)) = 1"
  proof (intro allI impI)
    fix d g assume a: "dia_laborable c d \<and> g \<in> set (rango (num_grupos c))"
    then have "length (filter (\<lambda>i. ?v (Asig i d g) = 1) (rango (num_instructores c))) = 1"
      using cobertura_en_modelo [OF assms(3) sat, of d g] by simp
    moreover from a have "d \<in> set (rango (num_dias c)) \<and> g \<in> set (rango (num_grupos c))"
      by (simp add: dia_laborable_def)
    ultimately show
      "length (filter (\<lambda>(d', g', i'). d' = d \<and> g' = g) (emitidos c fmt ?fi ?v)) = 1"
      by (simp only: cuenta_por_dia_grupo) simp
  qed
  have 3: "\<forall>d i. length (filter (\<lambda>(d', g', i'). d' = d \<and> i' = i) (emitidos c fmt ?fi ?v)) \<le> 1"
  proof (intro allI)
    fix d i
    show "length (filter (\<lambda>(d', g', i'). d' = d \<and> i' = i) (emitidos c fmt ?fi ?v)) \<le> 1"
    proof (cases "d \<in> set (rango (num_dias c)) \<and> i \<in> set (rango (num_instructores c))")
      case True
      then have "length (filter (\<lambda>g. ?v (Asig i d g) = 1) (rango (num_grupos c))) \<le> 1"
        using exclusividad_en_modelo [OF assms(3) sat, of i d] by simp
      with True show ?thesis by (simp only: cuenta_por_dia_instructor) simp
    next
      case False
      then show ?thesis by (simp only: cuenta_por_dia_instructor) simp
    qed
  qed
  have 4: "\<forall>d. \<not> dia_laborable c d \<longrightarrow>
            filter (\<lambda>(d', g', i'). d' = d) (emitidos c fmt ?fi ?v) = []"
  proof (intro allI impI)
    fix d assume nl: "\<not> dia_laborable c d"
    show "filter (\<lambda>(d', g', i'). d' = d) (emitidos c fmt ?fi ?v) = []"
    proof (rule ccontr)
      assume "filter (\<lambda>(d', g', i'). d' = d) (emitidos c fmt ?fi ?v) \<noteq> []"
      then obtain t where "t \<in> set (filter (\<lambda>(d', g', i'). d' = d) (emitidos c fmt ?fi ?v))"
        by (meson last_in_set)
      then obtain g i where "(d, g, i) \<in> set (asignados c ?v)"
        by (auto simp: set_emitidos)
      then have r: "d \<in> set (rango (num_dias c))" "g \<in> set (rango (num_grupos c))"
        "i \<in> set (rango (num_instructores c))" and one: "?v (Asig i d g) = 1"
        by (auto simp: set_asignados)
      from nl r(1) have "d \<in> set (dias_no_laborables c)" by (simp add: dia_laborable_def)
      from no_laborable_en_modelo [OF assms(3) sat r(3) this r(2)] one show False by simp
    qed
  qed
  from 1 2 3 4 show ?thesis by blast
qed

lemma fila_de_campos:
  "Fecha (fila_de c fmt fi d g i) = fmt (fi + d)"
  "Ficha (fila_de c fmt fi d g i) = get (grupos c ! nat g) ''Ficha'' ''N/A''"
  "Programa (fila_de c fmt fi d g i) = get (grupos c ! nat g) ''Programa'' ''N/A''"
  "Instructor (fila_de c fmt fi d g i) = get (instructores c ! nat i) ''Nombre'' ''N/A''"
  "Festivo (fila_de c fmt fi d g i) =
     (if d \<in> set (dias_no_laborables c) then ''S'' @ [CHR 0xC3, CHR 0xAD] else ''No'')"
  by (simp_all add: fila_de_def Let_def)

lemma asignados_indices:
  assumes "resultados c fmt fi v = Inr rs" and "(d, g, i) \<in> set (asignados c v)"
  shows "d \<in> set (rango (num_dias c)) \<and> g \<in> set (rango (num_grupos c)) \<and>
         i \<in> set (rango (num_instructores c)) \<and>
         g < int (length (grupos c)) \<and> i < int (length (instructores c))"
proof -
  from assms(2) have r: "d \<in> set (rango (num_dias c))" "g \<in> set (rango (num_grupos c))"
    "i \<in> set (rango (num_instructores c))" "v (Asig i d g) = 1"
    by (auto simp: set_asignados)
  from assms(1) have "\<exists>rs. resultados c fmt fi v = Inr rs" by blast
  then have "\<forall>d \<in> set (rango (num_dias c)).
        (d \<le> 999999999 \<and> 1 \<le> fi + d \<and> fi + d \<le> 3652059) \<and>
        (\<forall>g \<in> set (rango (num_grupos c)).
           g < int (length (grupos c)) \<and>
           (\<forall>i \<in> set (rango (num_instructores c)).
              v (Asig i d g) = 1 \<longrightarrow> i < int (length (instructores c)) \<and> ambientes c \<noteq> []))"
    by (simp only: resultados_ok_iff)
  with r show ?thesis by blast
qed

lemma filter_map_igual:
  assumes "\<forall>t \<in> set ts. P (F t) = Q t"
  shows "filter P (map F ts) = map F (filter Q ts)"
  using assms by (induction ts) auto

lemma cuenta_filas_dia_grupo:
  assumes "inj_on (\<lambda>d. fmt (fi + d)) (set (rango (num_dias c)))"
    and "inj_on (\<lambda>g. get (grupos c ! nat g) ''Ficha'' ''N/A'') (set (rango (num_grupos c)))"
    and "d \<in> set (rango (num_dias c))" and "g \<in> set (rango (num_grupos c))"
  shows "length (filter (\<lambda>r. Fecha r = fmt (fi + d) \<and>
                    Ficha r = get (grupos c ! nat g) ''Ficha'' ''N/A'')
           (map (\<lambda>(d, g, i). fila_de c fmt fi d g i) (emitidos c fmt fi v))) =
         length (filter (\<lambda>(d', g', i'). d' = d \<and> g' = g) (emitidos c fmt fi v))"
proof -
  have "\<forall>t \<in> set (emitidos c fmt fi v).
      (Fecha ((\<lambda>(d, g, i). fila_de c fmt fi d g i) t) = fmt (fi + d) \<and>
       Ficha ((\<lambda>(d, g, i). fila_de c fmt fi d g i) t) = get (grupos c ! nat g) ''Ficha'' ''N/A'') =
      (\<lambda>(d', g', i'). d' = d \<and> g' = g) t"
  proof
    fix t assume "t \<in> set (emitidos c fmt fi v)"
    then obtain d' g' i' where t: "t = (d', g', i')"
      and r: "d' \<in> set (rango (num_dias c))" "g' \<in> set (rango (num_grupos c))"
      by (auto simp: set_emitidos set_asignados)
    from r assms(1,3) have "(fmt (fi + d') = fmt (fi + d)) = (d' = d)"
      by (auto dest: inj_onD)
    moreover from r assms(2,4)
    have "(get (grupos c ! nat g') ''Ficha'' ''N/A'' = get (grupos c ! nat g) ''Ficha'' ''N/A'') =
        (g' = g)"
      by (auto dest: inj_onD)
    ultimately show "(Fecha ((\<lambda>(d, g, i). fila_de c fmt fi d g i) t) = fmt (fi + d) \<and>
       Ficha ((\<lambda>(d, g, i). fila_de c fmt fi d g i) t) = get (grupos c ! nat g) ''Ficha'' ''N/A'') =
      (\<lambda>(d', g', i'). d' = d \<and> g' = g) t"
      by (simp add: t fila_de_campos)
  qed
  then have "filter (\<lambda>r. Fecha r = fmt (fi + d) \<and> Ficha r = get (grupos c ! nat g) ''Ficha'' ''N/A'')
      (map (\<lambda>(d, g, i). fila_de c fmt fi d g i) (emitidos c fmt fi v)) =
    map (\<lambda>(d, g, i). fila_de c fmt fi d g i)
      (filter (\<lambda>(d', g', i'). d' = d \<and> g' = g) (emitidos c fmt fi v))"
    by (rule filter_map_igual [of "emitidos c fmt fi v" _ "\<lambda>(d, g, i). fila_de c fmt fi d g i"])
  then show ?thesis by (simp only: length_map)
qed

lemma cuenta_filas_dia_instructor:
  assumes "inj_on (\<lambda>d. fmt (fi + d)) (set (rango (num_dias c)))"
    and "inj_on (\<lambda>i. get (instructores c ! nat i) ''Nombre'' ''N/A'')
           (set (rango (num_instructores c)))"
    and "d \<in> set (rango (num_dias c))" and "i \<in> set (rango (num_instructores c))"
  shows "length (filter (\<lambda>r. Fecha r = fmt (fi + d) \<and>
                    Instructor r = get (instructores c ! nat i) ''Nombre'' ''N/A'')
           (map (\<lambda>(d, g, i). fila_de c fmt fi d g i) (emitidos c fmt fi v))) =
         length (filter (\<lambda>(d', g', i'). d' = d \<and> i' = i) (emitidos c fmt fi v))"
proof -
  have "\<forall>t \<in> set (emitidos c fmt fi v).
      (Fecha ((\<lambda>(d, g, i). fila_de c fmt fi d g i) t) = fmt (fi + d) \<and>
       Instructor ((\<lambda>(d, g, i). fila_de c fmt fi d g i) t) =
         get (instructores c ! nat i) ''Nombre'' ''N/A'') =
      (\<lambda>(d', g', i'). d' = d \<and> i' = i) t"
  proof
    fix t assume "t \<in> set (emitidos c fmt fi v)"
    then obtain d' g' i' where t: "t = (d', g', i')"
      and r: "d' \<in> set (rango (num_dias c))" "i' \<in> set (rango (num_instructores c))"
      by (auto simp: set_emitidos set_asignados)
    from r assms(1,3) have "(fmt (fi + d') = fmt (fi + d)) = (d' = d)"
      by (auto dest: inj_onD)
    moreover from r assms(2,4)
    have "(get (instructores c ! nat i') ''Nombre'' ''N/A'' =
           get (instructores c ! nat i) ''Nombre'' ''N/A'') = (i' = i)"
      by (auto dest: inj_onD)
    ultimately show "(Fecha ((\<lambda>(d, g, i). fila_de c fmt fi d g i) t) = fmt (fi + d) \<and>
       Instructor ((\<lambda>(d, g, i). fila_de c fmt fi d g i) t) =
         get (instructores c ! nat i) ''Nombre'' ''N/A'') =
      (\<lambda>(d', g', i'). d' = d \<and> i' = i) t"
      by (simp add: t fila_de_campos)
  qed
  then have "filter (\<lambda>r. Fecha r = fmt (fi + d) \<and> Instructor r = get (instructores c ! nat i) ''Nombre'' ''N/A'')
      (map (\<lambda>(d, g, i). fila_de c fmt fi d g i) (emitidos c fmt fi v)) =
    map (\<lambda>(d, g, i). fila_de c fmt fi d g i)
      (filter (\<lambda>(d', g', i'). d' = d \<and> i' = i) (emitidos c fmt fi v))"
    by (rule filter_map_igual [of "emitidos c fmt fi v" _ "\<lambda>(d, g, i). fila_de c fmt fi d g i"])
  then show ?thesis by (simp only: length_map)
qed

lemma cuenta_filas_dia:
  assumes "inj_on (\<lambda>d. fmt (fi + d)) (set (rango (num_dias c)))"
    and "d \<in> set (rango (num_dias c))"
  shows "filter (\<lambda>r. Fecha r = fmt (fi + d))
           (map (\<lambda>(d, g, i). fila_de c fmt fi d g i) (emitidos c fmt fi v)) =
         map (\<lambda>(d, g, i). fila_de c fmt fi d g i)
           (filter (\<lambda>(d', g', i'). d' = d) (emitidos c fmt fi v))"
proof -
  have "\<forall>t \<in> set (emitidos c fmt fi v).
      (Fecha ((\<lambda>(d, g, i). fila_de c fmt fi d g i) t) = fmt (fi + d)) =
      (\<lambda>(d', g', i'). d' = d) t"
  proof
    fix t assume "t \<in> set (emitidos c fmt fi v)"
    then obtain d' g' i' where t: "t = (d', g', i')"
      and r: "d' \<in> set (rango (num_dias c))"
      by (auto simp: set_emitidos set_asignados)
    from r assms have "(fmt (fi + d') = fmt (fi + d)) = (d' = d)"
      by (auto dest: inj_onD)
    then show "(Fecha ((\<lambda>(d, g, i). fila_de c fmt fi d g i) t) = fmt (fi + d)) =
      (\<lambda>(d', g', i'). d' = d) t"
      by (simp add: t fila_de_campos)
  qed
  then show ?thesis
    by (rule filter_map_igual [of "emitidos c fmt fi v" _ "\<lambda>(d, g, i). fila_de c fmt fi d g i"])
qed

lemma sesion_de_fila:
  "(let clave = get (grupos c ! nat g) ''Trimestre'' ''1'';
        todas = curriculo_sessions c;
        hallada = (case curriculo_por_trimestre c clave of None \<Rightarrow> todas
                   | Some b \<Rightarrow> if b = [] then todas else b);
        L = (if hallada = [] then [sesion_de_relleno] else hallada);
        k = (d * num_grupos c + g) mod int (length L)
    in 0 \<le> k \<and> k < int (length L) \<and>
       Asignatura (fila_de c fmt fi d g i) = get (L ! nat k) ''asignatura'' ''N/A'' \<and>
       Competencia (fila_de c fmt fi d g i) = get (L ! nat k) ''competencia'' ''N/A'' \<and>
       Resultados_de_Aprendizaje (fila_de c fmt fi d g i) = get (L ! nat k) ''resultados'' ''N/A'' \<and>
       (if hallada = []
        then Asignatura (fila_de c fmt fi d g i) = ''Sin asignatura'' \<and>
             Competencia (fila_de c fmt fi d g i) = ''N/A'' \<and>
             Resultados_de_Aprendizaje (fila_de c fmt fi d g i) = ''N/A''
        else True))"
proof -
  define hallada where "hallada =
    (case curriculo_por_trimestre c (get (grupos c ! nat g) ''Trimestre'' ''1'') of
       None \<Rightarrow> curriculo_sessions c
     | Some b \<Rightarrow> if b = [] then curriculo_sessions c else b)"
  define L where "L = (if hallada = [] then [sesion_de_relleno] else hallada)"
  have s: "sesiones_trimestre c g = L"
    by (simp add: sesiones_trimestre_def grupo_trimestre_key_def Let_def L_def hallada_def
        split: option.splits)
  have pos: "0 < int (length L)" by (simp add: L_def)
  have k: "0 \<le> (d * num_grupos c + g) mod int (length L)"
    "(d * num_grupos c + g) mod int (length L) < int (length L)"
    using pos by simp_all
  have campos:
    "Asignatura (fila_de c fmt fi d g i) =
       get (L ! nat ((d * num_grupos c + g) mod int (length L))) ''asignatura'' ''N/A''"
    "Competencia (fila_de c fmt fi d g i) =
       get (L ! nat ((d * num_grupos c + g) mod int (length L))) ''competencia'' ''N/A''"
    "Resultados_de_Aprendizaje (fila_de c fmt fi d g i) =
       get (L ! nat ((d * num_grupos c + g) mod int (length L))) ''resultados'' ''N/A''"
    by (simp_all add: fila_de_def curr_info_def curr_idx_def Let_def s)
  have relleno: "hallada = [] \<Longrightarrow>
      Asignatura (fila_de c fmt fi d g i) = ''Sin asignatura'' \<and>
      Competencia (fila_de c fmt fi d g i) = ''N/A'' \<and>
      Resultados_de_Aprendizaje (fila_de c fmt fi d g i) = ''N/A''"
    by (simp add: campos L_def sesion_de_relleno_def get_def)
  show ?thesis
    unfolding Let_def hallada_def [symmetric] L_def [symmetric]
    using k campos relleno by simp
qed

section \<open>Coverage in the returned rows\<close>

text \<open>
  Claim C1. When \<open>generar_horario_optimo\<close> returns with status \<open>OPTIMAL\<close> or
  \<open>FEASIBLE\<close> (the solver's answer satisfying the model it was given), the returned rows
  are, in order, the rows of the emitted triples \<open>(day, group, instructor)\<close>; the row of a
  triple shows the date of its day, the \<open>Ficha\<close> and \<open>Programa\<close> of its group, the name of
  its instructor and \<open>Festivo = No\<close>. Every pair of a working day and a group has exactly
  one row, no instructor has two rows on one day, and no row belongs to a day that is not
  a working day. Counted on the rows themselves: where dates print differently and groups
  have different \<open>Ficha\<close>s, exactly one row shows a given working day and group; where
  instructors have different names, at most one row shows a given day and instructor; and
  no row shows the date of a non-working day.
\<close>

theorem C1_cobertura:
  assumes "generar_horario_optimo c s fmt hoy = Inr res"
    and "estado res = ''OPTIMAL'' \<or> estado res = ''FEASIBLE''"
    and "construir_modelo c = Inr m" and "solver_correcto s m"
  shows "(let fi = fecha_de_inicio c hoy;
              ts = emitidos c fmt fi (valor (s m));
              ficha = (\<lambda>g. get (grupos c ! nat g) ''Ficha'' ''N/A'');
              nombre = (\<lambda>i. get (instructores c ! nat i) ''Nombre'' ''N/A'')
          in filas res = map (\<lambda>(d, g, i). fila_de c fmt fi d g i) ts \<and>
             (\<forall>(d, g, i) \<in> set ts.
                d \<in> set (rango (num_dias c)) \<and> g \<in> set (rango (num_grupos c)) \<and>
                i \<in> set (rango (num_instructores c)) \<and>
                g < int (length (grupos c)) \<and> i < int (length (instructores c)) \<and>
                Fecha (fila_de c fmt fi d g i) = fmt (fi + d) \<and>
                Ficha (fila_de c fmt fi d g i) = ficha g \<and>
                Programa (fila_de c fmt fi d g i) = get (grupos c ! nat g) ''Programa'' ''N/A'' \<and>
                Instructor (fila_de c fmt fi d g i) = nombre i \<and>
                Festivo (fila_de c fmt fi d g i) = ''No'') \<and>
             (\<forall>d g. dia_laborable c d \<and> g \<in> set (rango (num_grupos c)) \<longrightarrow>
                length (filter (\<lambda>(d', g', i'). d' = d \<and> g' = g) ts) = 1) \<and>
             (\<forall>d i. length (filter (\<lambda>(d', g', i'). d' = d \<and> i' = i) ts) \<le> 1) \<and>
             (\<forall>d. \<not> dia_laborable c d \<longrightarrow> filter (\<lambda>(d', g', i'). d' = d) ts = []) \<and>
             (inj_on (\<lambda>d. fmt (fi + d)) (set (rango (num_dias c))) \<and>
              inj_on ficha (set (rango (num_grupos c))) \<longrightarrow>
              (\<forall>d g. dia_laborable c d \<and> g \<in> set (rango (num_grupos c)) \<longrightarrow>
                 length (filter (\<lambda>r. Fecha r = fmt (fi + d) \<and> Ficha r = ficha g) (filas res))
                   = 1)) \<and>
             (inj_on (\<lambda>d. fmt (fi + d)) (set (rango (num_dias c))) \<and>
              inj_on nombre (set (rango (num_instructores c))) \<longrightarrow>
              (\<forall>d i. d \<in> set (rango (num_dias c)) \<and> i \<in> set (rango (num_instructores c)) \<longrightarrow>
                 length (filter (\<lambda>r. Fecha r = fmt (fi + d) \<and> Instructor r = nombre i)
                   (filas res)) \<le> 1)) \<and>
             (inj_on (\<lambda>d. fmt (fi + d)) (set (rango (num_dias c))) \<longrightarrow>
              (\<forall>d. d \<in> set (rango (num_dias c)) \<and> \<not> dia_laborable c d \<longrightarrow>
                 filter (\<lambda>r. Fecha r = fmt (fi + d)) (filas res) = [])))"
proof -
  let ?fi = "fecha_de_inicio c hoy" and ?v = "valor (s m)"
  let ?ts = "emitidos c fmt ?fi ?v"
  let ?F = "\<lambda>(d, g, i). fila_de c fmt ?fi d g i"
  let ?ficha = "\<lambda>g. get (grupos c ! nat g) ''Ficha'' ''N/A''"
  let ?nombre = "\<lambda>i. get (instructores c ! nat i) ''Nombre'' ''N/A''"
  note ce = cobertura_emitidos [OF assms]
  from ce have 1: "filas res = map ?F ?ts" by blast
  from ce have 2: "\<forall>d g. dia_laborable c d \<and> g \<in> set (rango (num_grupos c)) \<longrightarrow>
      length (filter (\<lambda>(d', g', i'). d' = d \<and> g' = g) ?ts) = 1" by blast
  from ce have 3: "\<forall>d i. length (filter (\<lambda>(d', g', i'). d' = d \<and> i' = i) ?ts) \<le> 1"
    by blast
  from ce have 4: "\<forall>d. \<not> dia_laborable c d \<longrightarrow> filter (\<lambda>(d', g', i'). d' = d) ?ts = []"
    by blast
  have pos: "dias_laborables c > 0"
  proof (rule ccontr)
    assume "\<not> dias_laborables c > 0"
    then have "dias_laborables c \<le> 0" by simp
    from generar_sin_dias [OF this, of s fmt hoy] assms(1,2) show False by auto
  qed
  from generar_Inr [OF assms(1) pos] assms(3)
  have e: "estado res = status_name (status (s m))"
    and f: "if status (s m) = OPTIMAL \<or> status (s m) = FEASIBLE
            then \<exists>rs. resultados c fmt ?fi ?v = Inr rs \<and> filas res = sort_values rs
            else filas res = []"
    by auto
  from assms(2) e have st: "status (s m) = OPTIMAL \<or> status (s m) = FEASIBLE"
    by (simp add: status_name_solucion)
  from f st obtain rs where rs: "resultados c fmt ?fi ?v = Inr rs" by auto
  have 5: "\<forall>(d, g, i) \<in> set ?ts.
      d \<in> set (rango (num_dias c)) \<and> g \<in> set (rango (num_grupos c)) \<and>
      i \<in> set (rango (num_instructores c)) \<and>
      g < int (length (grupos c)) \<and> i < int (length (instructores c)) \<and>
      Fecha (fila_de c fmt ?fi d g i) = fmt (?fi + d) \<and>
      Ficha (fila_de c fmt ?fi d g i) = ?ficha g \<and>
      Programa (fila_de c fmt ?fi d g i) = get (grupos c ! nat g) ''Programa'' ''N/A'' \<and>
      Instructor (fila_de c fmt ?fi d g i) = ?nombre i \<and>
      Festivo (fila_de c fmt ?fi d g i) = ''No''"
  proof (clarify)
    fix d g i assume t: "(d, g, i) \<in> set ?ts"
    then have a: "(d, g, i) \<in> set (asignados c ?v)" by (simp add: set_emitidos)
    note ix = asignados_indices [OF rs a]
    have "d \<notin> set (dias_no_laborables c)"
    proof
      assume "d \<in> set (dias_no_laborables c)"
      with ix have "\<not> dia_laborable c d" by (simp add: dia_laborable_def)
      with 4 have "filter (\<lambda>(d', g', i'). d' = d) ?ts = []" by blast
      with t show False by (auto simp: filter_empty_conv)
    qed
    with ix show "d \<in> set (rango (num_dias c)) \<and> g \<in> set (rango (num_grupos c)) \<and>
      i \<in> set (rango (num_instructores c)) \<and>
      g < int (length (grupos c)) \<and> i < int (length (instructores c)) \<and>
      Fecha (fila_de c fmt ?fi d g i) = fmt (?fi + d) \<and>
      Ficha (fila_de c fmt ?fi d g i) = ?ficha g \<and>
      Programa (fila_de c fmt ?fi d g i) = get (grupos c ! nat g) ''Programa'' ''N/A'' \<and>
      Instructor (fila_de c fmt ?fi d g i) = ?nombre i \<and>
      Festivo (fila_de c fmt ?fi d g i) = ''No''"
      by (simp add: fila_de_campos)
  qed
  have 6: "inj_on (\<lambda>d. fmt (?fi + d)) (set (rango (num_dias c))) \<and>
      inj_on ?ficha (set (rango (num_grupos c))) \<longrightarrow>
      (\<forall>d g. dia_laborable c d \<and> g \<in> set (rango (num_grupos c)) \<longrightarrow>
         length (filter (\<lambda>r. Fecha r = fmt (?fi + d) \<and> Ficha r = ?ficha g) (filas res)) = 1)"
  proof (intro impI allI)
    fix d g
    assume i: "inj_on (\<lambda>d. fmt (?fi + d)) (set (rango (num_dias c))) \<and>
      inj_on ?ficha (set (rango (num_grupos c)))"
      and a: "dia_laborable c d \<and> g \<in> set (rango (num_grupos c))"
    then have r: "d \<in> set (rango (num_dias c))" "g \<in> set (rango (num_grupos c))"
      by (simp_all add: dia_laborable_def)
    from cuenta_filas_dia_grupo [OF conjunct1 [OF i] conjunct2 [OF i] r, of ?v] 2 a
    show "length (filter (\<lambda>r. Fecha r = fmt (?fi + d) \<and> Ficha r = ?ficha g) (filas res)) = 1"
      by (simp only: 1)
  qed
  have 7: "inj_on (\<lambda>d. fmt (?fi + d)) (set (rango (num_dias c))) \<and>
      inj_on ?nombre (set (rango (num_instructores c))) \<longrightarrow>
      (\<forall>d i. d \<in> set (rango (num_dias c)) \<and> i \<in> set (rango (num_instructores c)) \<longrightarrow>
         length (filter (\<lambda>r. Fecha r = fmt (?fi + d) \<and> Instructor r = ?nombre i) (filas res))
           \<le> 1)"
  proof (intro impI allI)
    fix d i
    assume j: "inj_on (\<lambda>d. fmt (?fi + d)) (set (rango (num_dias c))) \<and>
      inj_on ?nombre (set (rango (num_instructores c)))"
      and a: "d \<in> set (rango (num_dias c)) \<and> i \<in> set (rango (num_instructores c))"
    from cuenta_filas_dia_instructor [OF conjunct1 [OF j] conjunct2 [OF j]
        conjunct1 [OF a] conjunct2 [OF a], of ?v] 3
    show "length (filter (\<lambda>r. Fecha r = fmt (?fi + d) \<and> Instructor r = ?nombre i) (filas res))
           \<le> 1"
      by (simp only: 1)
  qed
  have 8: "inj_on (\<lambda>d. fmt (?fi + d)) (set (rango (num_dias c))) \<longrightarrow>
      (\<forall>d. d \<in> set (rango (num_dias c)) \<and> \<not> dia_laborable c d \<longrightarrow>
         filter (\<lambda>r. Fecha r = fmt (?fi + d)) (filas res) = [])"
  proof (intro impI allI)
    fix d
    assume j: "inj_on (\<lambda>d. fmt (?fi + d)) (set (rango (num_dias c)))"
      and a: "d \<in> set (rango (num_dias c)) \<and> \<not> dia_laborable c d"
    from a 4 have "filter (\<lambda>(d', g', i'). d' = d) ?ts = []" by blast
    with cuenta_filas_dia [OF j conjunct1 [OF a], of ?v]
    show "filter (\<lambda>r. Fecha r = fmt (?fi + d)) (filas res) = []"
      by (simp only: 1 list.map)
  qed
  from 1 5 2 3 4 6 7 8 show ?thesis unfolding Let_def by blast
qed

theorem C1_cobertura_witness:
  "generar_horario_optimo cfg_ej solver_ej fmt_ej 0 =
     Inr \<lparr>filas = [fila_ej], estado = ''OPTIMAL'', stats = stats_solver cfg_ej respuesta_ej,
          resueltos = [modelo_ej]\<rparr> \<and>
   construir_modelo cfg_ej = Inr modelo_ej \<and> solver_correcto solver_ej modelo_ej \<and>
   dia_laborable cfg_ej 0 \<and> 0 \<in> set (rango (num_grupos cfg_ej)) \<and>
   1 \<in> set (rango (num_dias cfg_ej)) \<and> \<not> dia_laborable cfg_ej 1 \<and>
   inj_on (\<lambda>d. fmt_ej (739001 + d)) (set (rango (num_dias cfg_ej))) \<and>
   inj_on (\<lambda>g. get (grupos cfg_ej ! nat g) ''Ficha'' ''N/A'') (set (rango (num_grupos cfg_ej))) \<and>
   [fila_ej] =
     map (\<lambda>(d, g, i). fila_de cfg_ej fmt_ej 739001 d g i) (emitidos cfg_ej fmt_ej 739001 val_ej) \<and>
   length (filter (\<lambda>(d', g', i'). d' = 0 \<and> g' = 0) (emitidos cfg_ej fmt_ej 739001 val_ej)) = 1 \<and>
   length (filter (\<lambda>r. Fecha r = fmt_ej (739001 + 0) \<and>
                    Ficha r = get (grupos cfg_ej ! nat 0) ''Ficha'' ''N/A'') [fila_ej]) = 1 \<and>
   filter (\<lambda>r. Fecha r = fmt_ej (739001 + 1)) [fila_ej] = []"
proof -
  have l: "dia_laborable cfg_ej 0" and g: "0 \<in> set (rango (num_grupos cfg_ej))"
    and d1: "1 \<in> set (rango (num_dias cfg_ej))" and n: "\<not> dia_laborable cfg_ej 1"
    by (simp_all add: dia_laborable_def cfg_ej_def rango_def)
  have i1: "inj_on (\<lambda>d. fmt_ej (739001 + d)) (set (rango (num_dias cfg_ej)))"
    by (simp add: cfg_ej_def rango_def upto.simps fmt_ej_def)
  have i2: "inj_on (\<lambda>g. get (grupos cfg_ej ! nat g) ''Ficha'' ''N/A'')
      (set (rango (num_grupos cfg_ej)))"
    by (simp add: cfg_ej_def rango_def upto.simps)
  have e: "estado \<lparr>filas = [fila_ej], estado = ''OPTIMAL'',
      stats = stats_solver cfg_ej respuesta_ej, resueltos = [modelo_ej]\<rparr> = ''OPTIMAL'' \<or>
    estado \<lparr>filas = [fila_ej], estado = ''OPTIMAL'',
      stats = stats_solver cfg_ej respuesta_ej, resueltos = [modelo_ej]\<rparr> = ''FEASIBLE''"
    by simp
  note t = C1_cobertura [OF ej_resultado e ej_modelo ej_solver_correcto,
      unfolded Let_def ej_fecha ej_valor resultado.simps]
  from t have 1: "[fila_ej] =
      map (\<lambda>(d, g, i). fila_de cfg_ej fmt_ej 739001 d g i) (emitidos cfg_ej fmt_ej 739001 val_ej)"
    by blast
  from t l g have 2:
    "length (filter (\<lambda>(d', g', i'). d' = 0 \<and> g' = 0) (emitidos cfg_ej fmt_ej 739001 val_ej)) = 1"
    by blast
  from t i1 i2 have "\<forall>d g. dia_laborable cfg_ej d \<and> g \<in> set (rango (num_grupos cfg_ej)) \<longrightarrow>
      length (filter (\<lambda>r. Fecha r = fmt_ej (739001 + d) \<and>
                    Ficha r = get (grupos cfg_ej ! nat g) ''Ficha'' ''N/A'') [fila_ej]) = 1"
    by blast
  with l g have 3: "length (filter (\<lambda>r. Fecha r = fmt_ej (739001 + 0) \<and>
                    Ficha r = get (grupos cfg_ej ! nat 0) ''Ficha'' ''N/A'') [fila_ej]) = 1"
    by blast
  from t i1 have "\<forall>d. d \<in> set (rango (num_dias cfg_ej)) \<and> \<not> dia_laborable cfg_ej d \<longrightarrow>
      filter (\<lambda>r. Fecha r = fmt_ej (739001 + d)) [fila_ej] = []"
    by blast
  with d1 n have 4: "filter (\<lambda>r. Fecha r = fmt_ej (739001 + 1)) [fila_ej] = []"
    by blast
  from 1 2 3 4 l g d1 n i1 i2 ej_resultado ej_modelo ej_solver_correcto show ?thesis
    by blast
qed

section \<open>The weekly cap on sessions\<close>

text \<open>
  Claim C2, as amended. In every assignment that satisfies the built model, for every
  instructor and every window of seven consecutive days (the last one possibly shorter),
  the number of assignments in the window is at most
  \<open>max(1, floor(max_weekly_hours / max(1, hours_per_session)))\<close>: the cap is never
  below one session a week.
\<close>

theorem C2_tope_semanal:
  assumes "construir_modelo c = Inr m" and "satisface v m"
    and "i \<in> set (rango (num_instructores c))"
    and "w \<in> set (rango ((num_dias c + 6) div 7))"
  shows "(\<Sum>d\<leftarrow>rango2 (w * 7) (min (w * 7 + 7) (num_dias c)).
            \<Sum>g\<leftarrow>rango (num_grupos c). v (Asig i d g))
         \<le> max 1 (max_horas_semana c div max 1 (horas_por_asignacion c))"
proof -
  from assms(4) have w: "w \<in> set (rango (num_semanas c))" by (simp add: num_semanas_def)
  have "Add (Suma (asignaciones_semana c i w)) Le (Num (max_asignaciones_semana c))
          \<in> set (restr_semana c i w)"
    by (simp add: restr_semana_def)
  with semanal_en_modelo [OF assms(1,3) w]
  have "Add (Suma (asignaciones_semana c i w)) Le (Num (max_asignaciones_semana c))
          \<in> set (restricciones m)" by blast
  from satisface_cumple [OF assms(2) this]
  have "sum_list (map v (asignaciones_semana c i w)) \<le> max_asignaciones_semana c" by simp
  then show ?thesis
    by (simp add: suma_asignaciones_semana dias_semana_def max_asignaciones_semana_def
        horas_efectivas_def)
qed

theorem C2_tope_semanal_witness:
  "construir_modelo cfg_corta = Inr modelo_corta \<and> satisface val_corta modelo_corta \<and>
   0 \<in> set (rango (num_instructores cfg_corta)) \<and>
   0 \<in> set (rango ((num_dias cfg_corta + 6) div 7)) \<and>
   (\<Sum>d\<leftarrow>rango2 0 1. \<Sum>g\<leftarrow>rango 1. val_corta (Asig 0 d g)) \<le> 1"
proof -
  have i: "0 \<in> set (rango (num_instructores cfg_corta))"
    and w: "0 \<in> set (rango ((num_dias cfg_corta + 6) div 7))"
    by (simp_all add: cfg_corta_def rango_def)
  show ?thesis
    using C2_tope_semanal [OF corta_modelo corta_satisface i w] corta_modelo corta_satisface i w
    by (simp add: cfg_corta_def)
qed

text \<open>
  Without the outer \<open>max(1, ...)\<close> the bound is false: with sessions of four hours and
  three hours a week the quotient is 0, yet the model accepts (and coverage demands) one
  assignment in the week.
\<close>

theorem C2_tope_semanal_counterexample:
  "construir_modelo cfg_corta = Inr modelo_corta \<and> satisface val_corta modelo_corta \<and>
   \<not> (\<Sum>d\<leftarrow>rango2 0 (min 7 (num_dias cfg_corta)).
         \<Sum>g\<leftarrow>rango (num_grupos cfg_corta). val_corta (Asig 0 d g))
     \<le> max_horas_semana cfg_corta div max 1 (horas_por_asignacion cfg_corta)"
  using corta_modelo corta_satisface
  by (simp add: cfg_corta_def rango_def rango2_def val_corta_def upto.simps)

section \<open>The equity band\<close>

text \<open>
  Claim C3. When equity is requested, the model holds, for every instructor, the two
  constraints that keep the instructor's total load between
  \<open>max(0, target_low - margin)\<close> and \<open>target_high + margin\<close>, where
  \<open>total_required = num_groups * num_working_days\<close>,
  \<open>target_low = total_required div num_instructors\<close>, \<open>target_high\<close> is one more
  when the division leaves a remainder, and \<open>margin = max(1, target_low div 10)\<close>; so
  every assignment that satisfies the model has every load in that band.
\<close>

theorem C3_banda_equidad:
  assumes "construir_modelo c = Inr m" and "forzar_equidad c" and "satisface v m"
    and "i \<in> set (rango (num_instructores c))"
  shows "(let total_required = num_grupos c * (num_dias c - int (length (dias_no_laborables c)));
              target_low = total_required div num_instructores c;
              target_high = (if total_required mod num_instructores c \<noteq> 0 then target_low + 1
                             else target_low);
              margin = max 1 (target_low div 10);
              load = (\<Sum>d\<leftarrow>rango (num_dias c). \<Sum>g\<leftarrow>rango (num_grupos c). v (Asig i d g))
          in Add (Suma (total_instructor c i)) Ge (Num (max 0 (target_low - margin)))
               \<in> set (restricciones m) \<and>
             Add (Suma (total_instructor c i)) Le (Num (target_high + margin))
               \<in> set (restricciones m) \<and>
             max 0 (target_low - margin) \<le> load \<and> load \<le> target_high + margin)"
proof -
  from assms(4) have pos: "num_instructores c > 0" by (simp add: en_rango)
  have lo: "min_asign_por_inst c =
      (num_grupos c * (num_dias c - int (length (dias_no_laborables c)))) div num_instructores c"
    using pos by (simp add: min_asign_por_inst_def total_asignaciones_def dias_laborables_def)
  have hi: "max_asign_por_inst c = (if (num_grupos c * (num_dias c - int (length (dias_no_laborables c)))) mod num_instructores c \<noteq> 0
        then min_asign_por_inst c + 1 else min_asign_por_inst c)"
    using pos by (simp add: max_asign_por_inst_def total_asignaciones_def dias_laborables_def)
  have mg: "margen c = max 1 (min_asign_por_inst c div 10)"
    by (simp add: margen_def)
  note e = equidad_en_modelo[OF assms(1,2,4)]
  have a: "max 0 (min_asign_por_inst c - margen c) \<le> sum_list (map v (total_instructor c i))"
    using satisface_cumple[OF assms(3) e(1)] by simp
  have b: "sum_list (map v (total_instructor c i)) \<le> max_asign_por_inst c + margen c"
    using satisface_cumple[OF assms(3) e(2)] by simp
  show ?thesis
    unfolding Let_def using e a b
    by (simp add: suma_total_instructor hi mg lo split: if_splits)
qed

theorem C3_banda_equidad_witness:
  "construir_modelo cfg_ej = Inr modelo_ej \<and> forzar_equidad cfg_ej \<and>
   satisface val_ej modelo_ej \<and> 1 \<in> set (rango (num_instructores cfg_ej)) \<and>
   Add (Suma (total_instructor cfg_ej 1)) Ge (Num 0) \<in> set (restricciones modelo_ej) \<and>
   Add (Suma (total_instructor cfg_ej 1)) Le (Num 2) \<in> set (restricciones modelo_ej) \<and>
   0 \<le> (\<Sum>d\<leftarrow>rango 2. \<Sum>g\<leftarrow>rango 1. val_ej (Asig 1 d g)) \<and>
   (\<Sum>d\<leftarrow>rango 2. \<Sum>g\<leftarrow>rango 1. val_ej (Asig 1 d g)) \<le> 2"
proof -
  have f: "forzar_equidad cfg_ej" and i: "1 \<in> set (rango (num_instructores cfg_ej))"
    by (simp_all add: cfg_ej_def rango_def)
  show ?thesis
    using C3_banda_equidad [OF ej_modelo f ej_satisface i] ej_modelo ej_satisface f i
    by (simp add: Let_def cfg_ej_def)
qed

section \<open>The status that is returned\<close>

text \<open>
  Claim C4, as amended. Whenever \<open>generar_horario_optimo\<close> returns, its status text is
  \<open>NO_DIAS_LABORABLES\<close> when the configuration has no working day
  (\<open>num_dias - len(dias_no_laborables) \<le> 0\<close>), and otherwise one of \<open>OPTIMAL\<close>,
  \<open>FEASIBLE\<close>, \<open>INFEASIBLE\<close>, \<open>MODEL_INVALID\<close> and \<open>UNKNOWN\<close>.
\<close>

theorem C4_estado:
  assumes "generar_horario_optimo c s fmt hoy = Inr res"
  shows "(if num_dias c - int (length (dias_no_laborables c)) \<le> 0
          then estado res = ''NO_DIAS_LABORABLES''
          else estado res \<in>
                 {''OPTIMAL'', ''FEASIBLE'', ''INFEASIBLE'', ''MODEL_INVALID'', ''UNKNOWN''})"
proof (cases "dias_laborables c \<le> 0")
  case True
  with assms generar_sin_dias [OF True, of s fmt hoy] show ?thesis
    by (auto simp: dias_laborables_def)
next
  case False
  then have "dias_laborables c > 0" by simp
  from generar_Inr [OF assms this] obtain m where "estado res = status_name (status (s m))"
    by blast
  with False status_name_cases [of "status (s m)"] show ?thesis
    by (simp add: dias_laborables_def)
qed

theorem C4_estado_witness:
  "generar_horario_optimo cfg_ej solver_ej fmt_ej 0 =
     Inr \<lparr>filas = [fila_ej], estado = ''OPTIMAL'', stats = stats_solver cfg_ej respuesta_ej,
          resueltos = [modelo_ej]\<rparr> \<and>
   \<not> num_dias cfg_ej - int (length (dias_no_laborables cfg_ej)) \<le> 0 \<and>
   ''OPTIMAL'' \<in> {''OPTIMAL'', ''FEASIBLE'', ''INFEASIBLE'', ''MODEL_INVALID'', ''UNKNOWN''}"
  using C4_estado [OF ej_resultado] ej_resultado by (simp add: cfg_ej_def)

text \<open>
  The claim as it was written, with the closed set for every input, fails on the early
  return: a horizon whose only day is a holiday gives a status outside the set.
\<close>

theorem C4_estado_counterexample:
  "generar_horario_optimo cfg_festivo solver_ej fmt_ej 0 =
     Inr \<lparr>filas = [], estado = ''NO_DIAS_LABORABLES'', stats = Map.empty, resueltos = []\<rparr> \<and>
   ''NO_DIAS_LABORABLES'' \<notin>
     {''OPTIMAL'', ''FEASIBLE'', ''INFEASIBLE'', ''MODEL_INVALID'', ''UNKNOWN''}"
proof -
  have "dias_laborables cfg_festivo \<le> 0"
    using festivo_sin_dias by (simp add: dias_laborables_def)
  then show ?thesis by (simp add: generar_sin_dias)
qed

section \<open>Zero groups or zero instructors\<close>

text \<open>
  Claim C5, as amended. With no instructors or no groups, and at least one working day,
  \<open>generar_horario_optimo\<close> itself rejects nothing: where the limits fit the 64-bit
  integers of the constraint library and the period lies inside the calendar, it builds
  the model, submits it to the solver once, and returns no rows together with the
  solver's own status and diagnostics. With no instructors and at least one group the
  coverage constraint has no solution, so a solver whose answers are correct reports
  neither \<open>OPTIMAL\<close> nor \<open>FEASIBLE\<close>.

  The rejection is made before the engine is called. When the sheet of groups or the
  sheet of instructors has no rows, \<open>cargar_archivos_basic\<close> (lines 269 to 271) shows the
  error "Debe haber al menos 1 grupo/ficha y 1 instructor" and returns \<open>None\<close>, and the
  handler of the button stops there, whatever the settings, the holidays and the solver:
  \<open>generar_horario_optimo\<close> is not called. Conversely every call that the handler makes
  has at least one group and at least one instructor, these counts being the lengths of
  the lists it passes.
\<close>

theorem C5_sin_rechazo:
  "((num_instructores c = 0 \<or> num_grupos c = 0) \<and>
    0 < num_dias c - int (length (dias_no_laborables c)) \<and>
    en_int64 (max_dias_semana c) \<and> en_int64 (total_asignaciones c) \<and>
    1 \<le> fecha_de_inicio c hoy \<and> fecha_de_inicio c hoy + num_dias c \<le> 3652060 \<and>
    (\<forall>m. solver_correcto s m) \<longrightarrow>
      (\<exists>m. construir_modelo c = Inr m \<and>
         generar_horario_optimo c s fmt hoy =
           Inr \<lparr>filas = [], estado = status_name (status (s m)),
                stats = stats_solver c (s m), resueltos = [m]\<rparr> \<and>
         (if 0 < num_grupos c then status (s m) \<noteq> OPTIMAL \<and> status (s m) \<noteq> FEASIBLE
          else True))) \<and>
   (leido = Some p \<and>
    (int (length (p_grupos p)) = 0 \<or> int (length (p_instructores p)) = 0) \<longrightarrow>
      cargar_archivos_basic leido = ([Debe_haber_grupo_e_instructor], None) \<and>
      boton_generar True leido a dnl s fmt hoy = Detenido [Debe_haber_grupo_e_instructor]) \<and>
   (boton_generar todos leido a dnl s fmt hoy = Ejecutado r \<longrightarrow>
      (\<exists>datos. cargar_archivos_basic leido = ([], Some datos) \<and>
         r = generar_horario_optimo (argumentos datos a dnl) s fmt hoy \<and>
         1 \<le> num_grupos (argumentos datos a dnl) \<and>
         1 \<le> num_instructores (argumentos datos a dnl) \<and>
         num_grupos (argumentos datos a dnl) = int (length (grupos (argumentos datos a dnl))) \<and>
         num_instructores (argumentos datos a dnl) =
           int (length (instructores (argumentos datos a dnl)))))"
proof (intro conjI impI)
  assume h: "(num_instructores c = 0 \<or> num_grupos c = 0) \<and>
    0 < num_dias c - int (length (dias_no_laborables c)) \<and>
    en_int64 (max_dias_semana c) \<and> en_int64 (total_asignaciones c) \<and>
    1 \<le> fecha_de_inicio c hoy \<and> fecha_de_inicio c hoy + num_dias c \<le> 3652060 \<and>
    (\<forall>m. solver_correcto s m)"
  then have z: "num_instructores c = 0 \<or> num_grupos c = 0"
    and pos: "dias_laborables c > 0"
    and b1: "en_int64 (max_dias_semana c)" and b2: "en_int64 (total_asignaciones c)"
    and f1: "1 \<le> fecha_de_inicio c hoy"
    and f2: "fecha_de_inicio c hoy + num_dias c \<le> 3652060"
    and sc: "\<forall>m. solver_correcto s m"
    by (simp_all add: dias_laborables_def)
  from modelo_sin_rechazo [OF z b1 b2] obtain m where m: "construir_modelo c = Inr m"
    by blast
  show "\<exists>m. construir_modelo c = Inr m \<and>
         generar_horario_optimo c s fmt hoy =
           Inr \<lparr>filas = [], estado = status_name (status (s m)),
                stats = stats_solver c (s m), resueltos = [m]\<rparr> \<and>
         (if 0 < num_grupos c then status (s m) \<noteq> OPTIMAL \<and> status (s m) \<noteq> FEASIBLE
          else True)"
  proof (cases "0 < num_grupos c")
    case True
    with z have ni: "num_instructores c = 0" by auto
    have "\<not> satisface (valor (s m)) m"
      by (rule sin_instructores_insatisfacible [OF m ni True pos])
    moreover have "solver_correcto s m" using sc by simp
    ultimately have st: "status (s m) \<noteq> OPTIMAL \<and> status (s m) \<noteq> FEASIBLE"
      by (auto simp: solver_correcto_def split: if_splits)
    then have "generar_horario_optimo c s fmt hoy =
        Inr \<lparr>filas = [], estado = status_name (status (s m)),
             stats = stats_solver c (s m), resueltos = [m]\<rparr>"
      using pos m by (simp add: generar_horario_optimo_def Let_def)
    with m st True show ?thesis by auto
  next
    case False
    then have "num_grupos c \<le> 0" by simp
    from resultados_sin_grupos [OF this f1 f2]
    have "materializar c fmt (fecha_de_inicio c hoy) (valor (s m)) = Inr []"
      by (simp add: materializar_def sort_values_def)
    then have "generar_horario_optimo c s fmt hoy =
        Inr \<lparr>filas = [], estado = status_name (status (s m)),
             stats = stats_solver c (s m), resueltos = [m]\<rparr>"
      using pos m by (simp add: generar_horario_optimo_def Let_def)
    with m False show ?thesis by auto
  qed
next
  assume h: "leido = Some p \<and>
    (int (length (p_grupos p)) = 0 \<or> int (length (p_instructores p)) = 0)"
  then show l: "cargar_archivos_basic leido = ([Debe_haber_grupo_e_instructor], None)"
    by (auto simp: cargar_archivos_basic_def)
  show "boton_generar True leido a dnl s fmt hoy = Detenido [Debe_haber_grupo_e_instructor]"
    by (simp add: boton_generar_def l)
next
  assume e: "boton_generar todos leido a dnl s fmt hoy = Ejecutado r"
  obtain avisos res where c: "cargar_archivos_basic leido = (avisos, res)"
    by (cases "cargar_archivos_basic leido")
  from e c obtain datos where d: "res = Some datos"
    and r: "r = generar_horario_optimo (argumentos datos a dnl) s fmt hoy"
    by (cases res) (auto simp: boton_generar_def split: if_splits sum.splits)
  from c d obtain p where p: "leido = Some p"
    by (cases leido) (auto simp: cargar_archivos_basic_def)
  from c d p have n: "int (length (p_grupos p)) \<noteq> 0" "int (length (p_instructores p)) \<noteq> 0"
    by (auto simp: cargar_archivos_basic_def Let_def split: if_splits)
  with c d p have v: "avisos = []" "db_num_grupos datos = int (length (p_grupos p))"
    "db_num_instructores datos = int (length (p_instructores p))"
    "db_grupos datos = p_grupos p" "db_instructores datos = p_instructores p"
    by (auto simp: cargar_archivos_basic_def Let_def split: if_splits)
  from n have "1 \<le> int (length (p_grupos p))" "1 \<le> int (length (p_instructores p))"
    by (cases "p_grupos p", simp_all) (cases "p_instructores p", simp_all)
  with c d r v
  show "\<exists>datos. cargar_archivos_basic leido = ([], Some datos) \<and>
         r = generar_horario_optimo (argumentos datos a dnl) s fmt hoy \<and>
         1 \<le> num_grupos (argumentos datos a dnl) \<and>
         1 \<le> num_instructores (argumentos datos a dnl) \<and>
         num_grupos (argumentos datos a dnl) = int (length (grupos (argumentos datos a dnl))) \<and>
         num_instructores (argumentos datos a dnl) =
           int (length (instructores (argumentos datos a dnl)))"
    by (simp add: argumentos_def)
qed

theorem C5_sin_rechazo_witness:
  "num_instructores cfg_sin_instructores = 0 \<and>
   0 < num_dias cfg_sin_instructores - int (length (dias_no_laborables cfg_sin_instructores)) \<and>
   en_int64 (max_dias_semana cfg_sin_instructores) \<and>
   en_int64 (total_asignaciones cfg_sin_instructores) \<and>
   1 \<le> fecha_de_inicio cfg_sin_instructores 0 \<and>
   fecha_de_inicio cfg_sin_instructores 0 + num_dias cfg_sin_instructores \<le> 3652060 \<and>
   solver_correcto solver_infactible modelo_sin_instructores \<and>
   (\<exists>m. construir_modelo cfg_sin_instructores = Inr m \<and>
        generar_horario_optimo cfg_sin_instructores solver_infactible fmt_ej 0 =
          Inr \<lparr>filas = [], estado = status_name (status (solver_infactible m)),
               stats = stats_solver cfg_sin_instructores (solver_infactible m),
               resueltos = [m]\<rparr>) \<and>
   int (length (p_grupos leido_sin_grupos)) = 0 \<and>
   cargar_archivos_basic (Some leido_sin_grupos) = ([Debe_haber_grupo_e_instructor], None) \<and>
   boton_generar True (Some leido_sin_grupos) ajustes_ej [2, 3] solver_ej fmt_ej 0 =
     Detenido [Debe_haber_grupo_e_instructor] \<and>
   boton_generar True (Some leido_ej) ajustes_ej [2, 3] solver_ej fmt_ej 0 =
     Ejecutado (generar_horario_optimo
       (cfg_ej\<lparr>num_dias := 7, dias_no_laborables := [2, 3]\<rparr>) solver_ej fmt_ej 0) \<and>
   (\<exists>datos. cargar_archivos_basic (Some leido_ej) = ([], Some datos) \<and>
      1 \<le> num_grupos (argumentos datos ajustes_ej [2, 3]) \<and>
      1 \<le> num_instructores (argumentos datos ajustes_ej [2, 3]))"
proof -
  have n: "num_instructores cfg_sin_instructores = 0"
    and b1: "en_int64 (max_dias_semana cfg_sin_instructores)"
    and b2: "en_int64 (total_asignaciones cfg_sin_instructores)"
    and f1: "1 \<le> fecha_de_inicio cfg_sin_instructores 0"
    and f2: "fecha_de_inicio cfg_sin_instructores 0 + num_dias cfg_sin_instructores \<le> 3652060"
    by (simp_all add: cfg_sin_instructores_def en_int64_def total_asignaciones_def
        dias_laborables_def fecha_de_inicio_def)
  have sc: "\<forall>m. solver_correcto solver_infactible m"
    by (simp add: infactible_correcto)
  from n sin_instructores_dias b1 b2 f1 f2 sc
  have ha: "(num_instructores cfg_sin_instructores = 0 \<or> num_grupos cfg_sin_instructores = 0) \<and>
    0 < num_dias cfg_sin_instructores - int (length (dias_no_laborables cfg_sin_instructores)) \<and>
    en_int64 (max_dias_semana cfg_sin_instructores) \<and>
    en_int64 (total_asignaciones cfg_sin_instructores) \<and>
    1 \<le> fecha_de_inicio cfg_sin_instructores 0 \<and>
    fecha_de_inicio cfg_sin_instructores 0 + num_dias cfg_sin_instructores \<le> 3652060 \<and>
    (\<forall>m. solver_correcto solver_infactible m)"
    by blast
  have z: "int (length (p_grupos leido_sin_grupos)) = 0"
    by (simp add: leido_sin_grupos_def)
  then have hb: "Some leido_sin_grupos = Some leido_sin_grupos \<and>
      (int (length (p_grupos leido_sin_grupos)) = 0 \<or>
       int (length (p_instructores leido_sin_grupos)) = 0)"
    by simp
  have g: "get sesion_ej ''trimestre'' ''1'' = ''2''"
    by (simp add: get_def sesion_ej_def)
  have e: "boton_generar True (Some leido_ej) ajustes_ej [2, 3] solver_ej fmt_ej 0 =
     Ejecutado (generar_horario_optimo
       (cfg_ej\<lparr>num_dias := 7, dias_no_laborables := [2, 3]\<rparr>) solver_ej fmt_ej 0)"
    by (simp add: boton_generar_def cargar_archivos_basic_def leido_ej_def Let_def g
        argumentos_def ajustes_ej_def cfg_ej_def fecha_real_def)
  from C5_sin_rechazo [of cfg_sin_instructores 0 solver_infactible fmt_ej
      "Some leido_sin_grupos" leido_sin_grupos ajustes_ej "[2, 3]" True "Inl KeyError"] ha
  have 0: "\<exists>m. construir_modelo cfg_sin_instructores = Inr m \<and>
        generar_horario_optimo cfg_sin_instructores solver_infactible fmt_ej 0 =
          Inr \<lparr>filas = [], estado = status_name (status (solver_infactible m)),
               stats = stats_solver cfg_sin_instructores (solver_infactible m),
               resueltos = [m]\<rparr>"
    by blast
  from C5_sin_rechazo [of cfg_ej 0 solver_ej fmt_ej
      "Some leido_sin_grupos" leido_sin_grupos ajustes_ej "[2, 3]" True "Inl KeyError"] hb
  have 1: "cargar_archivos_basic (Some leido_sin_grupos) = ([Debe_haber_grupo_e_instructor], None)"
    and 2: "boton_generar True (Some leido_sin_grupos) ajustes_ej [2, 3] solver_ej fmt_ej 0 =
      Detenido [Debe_haber_grupo_e_instructor]"
    by blast+
  from C5_sin_rechazo [of cfg_ej 0 solver_ej fmt_ej "Some leido_ej" leido_ej ajustes_ej
      "[2, 3]" True "generar_horario_optimo
       (cfg_ej\<lparr>num_dias := 7, dias_no_laborables := [2, 3]\<rparr>) solver_ej fmt_ej 0"] e
  have 3: "\<exists>datos. cargar_archivos_basic (Some leido_ej) = ([], Some datos) \<and>
      1 \<le> num_grupos (argumentos datos ajustes_ej [2, 3]) \<and>
      1 \<le> num_instructores (argumentos datos ajustes_ej [2, 3])"
    by blast
  from n sin_instructores_dias b1 b2 f1 f2 infactible_correcto [of modelo_sin_instructores]
    0 z 1 2 e 3
  show ?thesis by blast
qed

text \<open>
  The claim as it was written, that such a configuration is rejected before any solve,
  fails of \<open>generar_horario_optimo\<close>: called with no instructors, one group and five
  working days, it builds the model and submits it; the status it returns is the
  solver's.
\<close>

theorem C5_sin_rechazo_counterexample:
  "num_instructores cfg_sin_instructores = 0 \<and>
   0 < num_dias cfg_sin_instructores - int (length (dias_no_laborables cfg_sin_instructores)) \<and>
   solver_correcto solver_infactible modelo_sin_instructores \<and>
   generar_horario_optimo cfg_sin_instructores solver_infactible fmt_ej 0 =
     Inr \<lparr>filas = [], estado = ''INFEASIBLE'',
          stats = stats_solver cfg_sin_instructores respuesta_infactible,
          resueltos = [modelo_sin_instructores]\<rparr> \<and>
   resueltos \<lparr>filas = [], estado = ''INFEASIBLE'',
          stats = stats_solver cfg_sin_instructores respuesta_infactible,
          resueltos = [modelo_sin_instructores]\<rparr> \<noteq> []"
proof -
  have "dias_laborables cfg_sin_instructores = 5"
    by (simp add: dias_laborables_def cfg_sin_instructores_def)
  moreover have "status_name INFEASIBLE = ''INFEASIBLE''"
    by (simp add: status_name_def status_names_def)
  ultimately have "generar_horario_optimo cfg_sin_instructores solver_infactible fmt_ej 0 =
     Inr \<lparr>filas = [], estado = ''INFEASIBLE'',
          stats = stats_solver cfg_sin_instructores respuesta_infactible,
          resueltos = [modelo_sin_instructores]\<rparr>"
    by (simp add: generar_horario_optimo_def sin_instructores_modelo solver_infactible_def
        respuesta_infactible_def)
  with sin_instructores_dias infactible_correcto [of modelo_sin_instructores]
  show ?thesis by (simp add: cfg_sin_instructores_def)
qed

section \<open>The curriculum session of a row\<close>

text \<open>
  Claim C6. The row emitted for day \<open>d\<close> and group \<open>g\<close> takes its subject, competence
  and learning outcome from the session at index \<open>(d * num_grupos + g) mod L\<close> of the
  resolved list, of length \<open>L \<ge> 1\<close>, so the index always exists. The list is resolved
  from the \<open>Trimestre\<close> field of the group (\<open>"1"\<close> when the group has none): the bucket
  of that key in the index; the whole session list when the key is absent (or its bucket
  is empty); one placeholder session, \<open>Sin asignatura\<close>, when that list is empty too.
  Whether the loop raises depends on the dates, groups, instructors and environments
  alone: no curriculum data, present or missing, makes it abort.
\<close>

theorem C6_sesion_curriculo:
  "((\<exists>rs. resultados c fmt fi v = Inr rs) =
      (\<forall>d \<in> set (rango (num_dias c)).
         (d \<le> 999999999 \<and> 1 \<le> fi + d \<and> fi + d \<le> 3652059) \<and>
         (\<forall>g \<in> set (rango (num_grupos c)).
            g < int (length (grupos c)) \<and>
            (\<forall>i \<in> set (rango (num_instructores c)).
               v (Asig i d g) = 1 \<longrightarrow> i < int (length (instructores c)) \<and> ambientes c \<noteq> [])))) \<and>
   (\<forall>rs. resultados c fmt fi v = Inr rs \<longrightarrow>
      rs = map (\<lambda>(d, g, i). fila_de c fmt fi d g i) (asignados c v)) \<and>
   (let clave = get (grupos c ! nat g) ''Trimestre'' ''1'';
        todas = curriculo_sessions c;
        hallada = (case curriculo_por_trimestre c clave of None \<Rightarrow> todas
                   | Some b \<Rightarrow> if b = [] then todas else b);
        L = (if hallada = [] then [sesion_de_relleno] else hallada);
        k = (d * num_grupos c + g) mod int (length L)
    in 0 \<le> k \<and> k < int (length L) \<and>
       Asignatura (fila_de c fmt fi d g i) = get (L ! nat k) ''asignatura'' ''N/A'' \<and>
       Competencia (fila_de c fmt fi d g i) = get (L ! nat k) ''competencia'' ''N/A'' \<and>
       Resultados_de_Aprendizaje (fila_de c fmt fi d g i) = get (L ! nat k) ''resultados'' ''N/A'' \<and>
       (if hallada = []
        then Asignatura (fila_de c fmt fi d g i) = ''Sin asignatura'' \<and>
             Competencia (fila_de c fmt fi d g i) = ''N/A'' \<and>
             Resultados_de_Aprendizaje (fila_de c fmt fi d g i) = ''N/A''
        else True))"
proof -
  have a: "\<forall>rs. resultados c fmt fi v = Inr rs \<longrightarrow>
      rs = map (\<lambda>(d, g, i). fila_de c fmt fi d g i) (asignados c v)"
    using resultados_Inr by blast
  from resultados_ok_iff [of c fmt fi v] a sesion_de_fila [of c g d fmt fi i]
  show ?thesis by (rule conjI [OF _ conjI])
qed

theorem C6_sesion_curriculo_witness:
  "curriculo_por_trimestre cfg_sin_curriculo
     (get (grupos cfg_sin_curriculo ! nat 0) ''Trimestre'' ''1'') = None \<and>
   curriculo_sessions cfg_sin_curriculo = [] \<and>
   Asignatura (fila_de cfg_sin_curriculo fmt_ej 739001 0 0 1) = ''Sin asignatura'' \<and>
   Competencia (fila_de cfg_sin_curriculo fmt_ej 739001 0 0 1) = ''N/A'' \<and>
   (\<exists>rs. resultados cfg_sin_curriculo fmt_ej 739001 val_ej = Inr rs)"
proof -
  note t = C6_sesion_curriculo [of cfg_sin_curriculo fmt_ej 739001 val_ej 0 0 1,
      THEN conjunct2, THEN conjunct2, unfolded Let_def]
  have n: "curriculo_por_trimestre cfg_sin_curriculo
      (get (grupos cfg_sin_curriculo ! nat 0) ''Trimestre'' ''1'') = None"
    and e: "curriculo_sessions cfg_sin_curriculo = []"
    by (simp_all add: cfg_sin_curriculo_def)
  have r: "get sesion_de_relleno ''asignatura'' ''N/A'' = ''Sin asignatura''"
    "get sesion_de_relleno ''competencia'' ''N/A'' = ''N/A''"
    by (simp_all add: sesion_de_relleno_def get_def)
  from t have "Asignatura (fila_de cfg_sin_curriculo fmt_ej 739001 0 0 1) = ''Sin asignatura'' \<and>
      Competencia (fila_de cfg_sin_curriculo fmt_ej 739001 0 0 1) = ''N/A''"
    by (simp add: n [simplified] e r)
  with n e sin_curriculo_resultados show ?thesis by simp
qed

section \<open>Relaxing the weekly limits\<close>

text \<open>
  Claim C7. Raising \<open>max_horas_semana\<close> or \<open>max_dias_semana\<close> (either or both) to
  values that \<open>model.Add\<close> takes (at most \<open>2^63 - 1\<close>) and keeping every other input
  builds a model that every solution of the original model satisfies: a feasible
  configuration stays feasible. Beyond \<open>2^63 - 1\<close> line 378 raises \<open>TypeError\<close> and no
  model is built.
\<close>

theorem C7_monotonia:
  assumes "construir_modelo c = Inr m" and "satisface v m"
    and "max_horas_semana c \<le> h" and "max_dias_semana c \<le> k"
    and "h \<le> 9223372036854775807" and "k \<le> 9223372036854775807"
  shows "\<exists>m'. construir_modelo (c\<lparr>max_horas_semana := h, max_dias_semana := k\<rparr>) = Inr m' \<and>
              satisface v m'"
proof -
  let ?c = "c\<lparr>max_horas_semana := h, max_dias_semana := k\<rparr>"
  obtain r1 where r1: "restr_no_laborables c = Inr r1"
    and vs: "variables m = vars_asignacion c @ vars_trabajo c @ vars_carga c"
    and rs: "restricciones m = r1 @ restr_cobertura c @ restr_exclusividad c @
      restr_semanales c @ restr_equidad c @ restr_objetivo c"
    using construir_modelo_Inr [OF assms(1)] by blast
  have same: "restr_no_laborables ?c = restr_no_laborables c"
    "restr_cobertura ?c = restr_cobertura c" "restr_exclusividad ?c = restr_exclusividad c"
    "restr_equidad ?c = restr_equidad c" "restr_objetivo ?c = restr_objetivo c"
    "vars_asignacion ?c = vars_asignacion c" "vars_trabajo ?c = vars_trabajo c"
    "vars_carga ?c = vars_carga c"
    by (simp_all add: sin_topes cong: if_cong)
  have acepta: "\<not> rechaza_entero ?c"
    by (rule rechaza_entero_mono [OF construir_modelo_acepta [OF assms(1)] assms(4,5,6)])
  define m' where "m' = \<lparr>variables = vars_asignacion c @ vars_trabajo c @ vars_carga c,
      restricciones = r1 @ restr_cobertura c @ restr_exclusividad c @
        restr_semanales ?c @ restr_equidad c @ restr_objetivo c,
      minimizar = (MaxCarga, MinCarga)\<rparr>"
  have b: "construir_modelo ?c = Inr m'"
    using acepta by (simp add: construir_modelo_def same r1 m'_def)
  have sem: "\<forall>r \<in> set (restr_semanales c). cumple v r"
    using assms(2) by (simp add: satisface_def rs list_all_iff)
  have sem': "\<forall>r \<in> set (restr_semanales ?c). cumple v r"
  proof
    fix r assume "r \<in> set (restr_semanales ?c)"
    then obtain i w where i: "i \<in> set (rango (num_instructores c))"
      and w: "w \<in> set (rango (num_semanas c))" and r: "r \<in> set (restr_semana ?c i w)"
      by (auto simp: restr_semanales_def num_semanas_def)
    have "\<forall>r \<in> set (restr_semana c i w). cumple v r"
      using sem i w by (auto simp: restr_semanales_def)
    from restr_semana_mono [OF this assms(3,4)] r show "cumple v r" by blast
  qed
  have "satisface v m'"
    using assms(2) sem' by (auto simp: satisface_def m'_def vs rs list_all_iff)
  with b show ?thesis by blast
qed

theorem C7_monotonia_witness:
  "construir_modelo cfg_corta = Inr modelo_corta \<and> satisface val_corta modelo_corta \<and>
   max_horas_semana cfg_corta \<le> 40 \<and> max_dias_semana cfg_corta \<le> 7 \<and>
   (40::int) \<le> 9223372036854775807 \<and> (7::int) \<le> 9223372036854775807 \<and>
   (\<exists>m'. construir_modelo (cfg_corta\<lparr>max_horas_semana := 40, max_dias_semana := 7\<rparr>) =
           Inr m' \<and> satisface val_corta m')"
proof -
  have h: "max_horas_semana cfg_corta \<le> 40" and k: "max_dias_semana cfg_corta \<le> 7"
    by (simp_all add: cfg_corta_def)
  have hb: "(40::int) \<le> 9223372036854775807" and kb: "(7::int) \<le> 9223372036854775807"
    by simp_all
  show ?thesis
    using C7_monotonia [OF corta_modelo corta_satisface h k hb kb] corta_modelo
      corta_satisface h k
    by simp
qed

section \<open>A configuration without groups\<close>

text \<open>
  Claim C9. With \<open>num_grupos = 0\<close>, at least one instructor and at least one working
  day, \<open>generar_horario_optimo\<close> does not reject the input: it builds a model without
  assignment variables and submits it to the solver. The model has a solution (all
  zeros); every solution has every load \<open>carga_i\<close> equal to 0 and objective 0. So a solver
  that settles the model answers \<open>OPTIMAL\<close>, and the function returns \<open>OPTIMAL\<close> with no
  rows. The cap \<open>max_dias_semana\<close> is taken between 0 and \<open>2^63 - 1\<close>, which contains the
  range 1 to 7 of the slider, and the dates \<open>fecha_inicio + d\<close> of the period are dates
  (from \<open>date.min\<close> to \<open>date.max\<close>), which the pass computes for every day.
\<close>

theorem C9_sin_grupos:
  assumes "num_grupos c = 0" and "1 \<le> num_instructores c"
    and "0 < num_dias c - int (length (dias_no_laborables c))"
    and "0 \<le> max_dias_semana c" and "max_dias_semana c \<le> 9223372036854775807"
    and "1 \<le> fecha_de_inicio c hoy" and "fecha_de_inicio c hoy + num_dias c \<le> 3652060"
    and "\<forall>m. solver_decide s m"
  shows "\<exists>m. construir_modelo c = Inr m \<and> vars_asignacion c = [] \<and>
           variables m = vars_trabajo c @ vars_carga c \<and>
           satisface (\<lambda>x. 0) m \<and>
           (\<forall>v. satisface v m \<longrightarrow>
              (\<forall>i \<in> set (rango (num_instructores c)). v (Carga i) = 0) \<and> objetivo v m = 0) \<and>
           generar_horario_optimo c s fmt hoy =
             Inr \<lparr>filas = [], estado = ''OPTIMAL'', stats = stats_solver c (s m),
                  resueltos = [m]\<rparr>"
proof -
  have "en_int64 (max_dias_semana c)" using assms(4,5) by (simp add: en_int64_def)
  from sin_grupos_modelo [OF assms(1) this] obtain m where m: "construir_modelo c = Inr m"
    by blast
  have pos: "dias_laborables c > 0" using assms(3) by (simp add: dias_laborables_def)
  have sat: "satisface (\<lambda>x. 0) m"
    by (rule sin_grupos_satisfacible [OF m assms(1,2,4)])
  then have "\<exists>v. satisface v m" by blast
  with assms(8) have st: "status (s m) = OPTIMAL"
    by (auto simp: solver_decide_def split: if_splits)
  have "num_grupos c \<le> 0" using assms(1) by simp
  from resultados_sin_grupos [OF this assms(6,7)]
  have "materializar c fmt (fecha_de_inicio c hoy) (valor (s m)) = Inr []"
    by (simp add: materializar_def sort_values_def)
  with pos m st have g: "generar_horario_optimo c s fmt hoy =
      Inr \<lparr>filas = [], estado = ''OPTIMAL'', stats = stats_solver c (s m), resueltos = [m]\<rparr>"
    by (simp add: generar_horario_optimo_def Let_def status_name_def status_names_def)
  have "\<forall>v. satisface v m \<longrightarrow>
      (\<forall>i \<in> set (rango (num_instructores c)). v (Carga i) = 0) \<and> objetivo v m = 0"
    using sin_grupos_cargas [OF m assms(1,2)] by blast
  with m sat g sin_grupos_restricciones [OF m assms(1)] show ?thesis by blast
qed

theorem C9_sin_grupos_witness:
  "num_grupos cfg_sin_grupos = 0 \<and> 1 \<le> num_instructores cfg_sin_grupos \<and>
   0 < num_dias cfg_sin_grupos - int (length (dias_no_laborables cfg_sin_grupos)) \<and>
   0 \<le> max_dias_semana cfg_sin_grupos \<and>
   max_dias_semana cfg_sin_grupos \<le> 9223372036854775807 \<and>
   1 \<le> fecha_de_inicio cfg_sin_grupos 0 \<and>
   fecha_de_inicio cfg_sin_grupos 0 + num_dias cfg_sin_grupos \<le> 3652060 \<and>
   (\<forall>m. solver_decide solver_cero m) \<and>
   (\<exists>m. construir_modelo cfg_sin_grupos = Inr m \<and> satisface (\<lambda>x. 0) m \<and>
        generar_horario_optimo cfg_sin_grupos solver_cero fmt_ej 0 =
          Inr \<lparr>filas = [], estado = ''OPTIMAL'',
               stats = stats_solver cfg_sin_grupos (solver_cero m), resueltos = [m]\<rparr>)"
proof -
  have g: "num_grupos cfg_sin_grupos = 0" and i: "1 \<le> num_instructores cfg_sin_grupos"
    and k: "0 \<le> max_dias_semana cfg_sin_grupos"
    and kb: "max_dias_semana cfg_sin_grupos \<le> 9223372036854775807"
    and f: "1 \<le> fecha_de_inicio cfg_sin_grupos 0"
    and fb: "fecha_de_inicio cfg_sin_grupos 0 + num_dias cfg_sin_grupos \<le> 3652060"
    by (simp_all add: cfg_sin_grupos_def cfg_ej_def fecha_de_inicio_def)
  have s: "\<forall>m. solver_decide solver_cero m" by (simp add: cero_decide)
  from C9_sin_grupos [OF g i sin_grupos_dias k kb f fb s, of fmt_ej] g i k kb f fb
    sin_grupos_dias s
  show ?thesis by blast
qed

section \<open>The early return\<close>

text \<open>
  Claim C10. When \<open>num_dias - len(dias_no_laborables) \<le> 0\<close> the function returns no
  rows, the status text \<open>NO_DIAS_LABORABLES\<close> and an empty diagnostics dictionary, and
  no model is submitted to the solver; whereas every return that did reach the solver
  carries the keys \<open>tiempo_solver\<close>, \<open>conflictos\<close>, \<open>ramas\<close>, \<open>dias_laborables\<close> and
  \<open>total_asignaciones_esperadas\<close>.
\<close>

theorem C10_sin_dias_laborables:
  assumes "num_dias c - int (length (dias_no_laborables c)) \<le> 0"
  shows "generar_horario_optimo c s fmt hoy =
           Inr \<lparr>filas = [], estado = ''NO_DIAS_LABORABLES'', stats = Map.empty,
                resueltos = []\<rparr> \<and>
         (\<forall>c' s' fmt' hoy' res.
            generar_horario_optimo c' s' fmt' hoy' = Inr res \<and> resueltos res \<noteq> [] \<longrightarrow>
            {''tiempo_solver'', ''conflictos'', ''ramas'', ''dias_laborables'',
             ''total_asignaciones_esperadas''} \<subseteq> dom (stats res))"
proof
  show "generar_horario_optimo c s fmt hoy =
           Inr \<lparr>filas = [], estado = ''NO_DIAS_LABORABLES'', stats = Map.empty,
                resueltos = []\<rparr>"
    using assms by (simp add: generar_sin_dias dias_laborables_def)
  show "\<forall>c' s' fmt' hoy' res.
            generar_horario_optimo c' s' fmt' hoy' = Inr res \<and> resueltos res \<noteq> [] \<longrightarrow>
            {''tiempo_solver'', ''conflictos'', ''ramas'', ''dias_laborables'',
             ''total_asignaciones_esperadas''} \<subseteq> dom (stats res)"
  proof (intro allI impI)
    fix c' s' fmt' hoy' res
    assume a: "generar_horario_optimo c' s' fmt' hoy' = Inr res \<and> resueltos res \<noteq> []"
    have pos: "dias_laborables c' > 0"
    proof (rule ccontr)
      assume "\<not> dias_laborables c' > 0"
      then have "dias_laborables c' \<le> 0" by simp
      from generar_sin_dias [OF this, of s' fmt' hoy'] a show False by auto
    qed
    from generar_Inr [OF conjunct1 [OF a] pos] obtain m where
      "stats res = stats_solver c' (s' m)" by blast
    then show "{''tiempo_solver'', ''conflictos'', ''ramas'', ''dias_laborables'',
             ''total_asignaciones_esperadas''} \<subseteq> dom (stats res)"
      by (simp add: dom_stats_solver)
  qed
qed

theorem C10_sin_dias_laborables_witness:
  "num_dias cfg_festivo - int (length (dias_no_laborables cfg_festivo)) \<le> 0 \<and>
   generar_horario_optimo cfg_festivo solver_ej fmt_ej 0 =
     Inr \<lparr>filas = [], estado = ''NO_DIAS_LABORABLES'', stats = Map.empty, resueltos = []\<rparr> \<and>
   {''tiempo_solver'', ''conflictos'', ''ramas'', ''dias_laborables'',
    ''total_asignaciones_esperadas''} \<subseteq> dom (stats_solver cfg_ej respuesta_ej)"
proof -
  note t = C10_sin_dias_laborables [OF festivo_sin_dias, of solver_ej fmt_ej 0]
  from t have "generar_horario_optimo cfg_ej solver_ej fmt_ej 0 =
        Inr \<lparr>filas = [fila_ej], estado = ''OPTIMAL'', stats = stats_solver cfg_ej respuesta_ej,
          resueltos = [modelo_ej]\<rparr> \<and>
      resueltos \<lparr>filas = [fila_ej], estado = ''OPTIMAL'', stats = stats_solver cfg_ej respuesta_ej,
          resueltos = [modelo_ej]\<rparr> \<noteq> [] \<longrightarrow>
      {''tiempo_solver'', ''conflictos'', ''ramas'', ''dias_laborables'',
       ''total_asignaciones_esperadas''} \<subseteq> dom (stats \<lparr>filas = [fila_ej], estado = ''OPTIMAL'', stats = stats_solver cfg_ej respuesta_ej,
          resueltos = [modelo_ej]\<rparr>)"
    by blast
  with ej_resultado have "{''tiempo_solver'', ''conflictos'', ''ramas'', ''dias_laborables'',
       ''total_asignaciones_esperadas''} \<subseteq> dom (stats_solver cfg_ej respuesta_ej)"
    by simp
  with t festivo_sin_dias show ?thesis by blast
qed

end
